theory Spec2Isabelle
  imports Complex_Main
begin

section \<open>JavaScript strings and values\<close>

text \<open>
  A JavaScript string is modelled as a \<^typ>\<open>string\<close>: a list of 8-bit code units.
  \<open>String.prototype.trim\<close> removes the ECMAScript white space and line terminator
  code points from both ends; those below 256 are TAB, LF, VT, FF, CR, SPACE and NBSP.
\<close>

abbreviation TAB :: char where "TAB \<equiv> CHR 0x09"
abbreviation LF :: char where "LF \<equiv> CHR 0x0A"
abbreviation COMMA :: char where "COMMA \<equiv> CHR '',''"

definition is_ws :: "char \<Rightarrow> bool" where
  "is_ws c \<longleftrightarrow> c \<in> {CHR 0x09, CHR 0x0A, CHR 0x0B, CHR 0x0C, CHR 0x0D, CHR 0x20, CHR 0xA0}"

definition trim :: "string \<Rightarrow> string" where
  "trim s = rev (dropWhile is_ws (rev (dropWhile is_ws s)))"

text \<open>
  \<open>s.split(c)\<close> for a one-character separator. There is always at least one piece, so
  the first branch of the \<open>case\<close> is never taken.
\<close>

fun split_on :: "char \<Rightarrow> string \<Rightarrow> string list" where
  "split_on c [] = [[]]"
| "split_on c (x # xs) =
     (if x = c then [] # split_on c xs
      else (case split_on c xs of
              [] \<Rightarrow> [[x]]
            | piece # pieces \<Rightarrow> (x # piece) # pieces))"

text \<open>\<open>xs.join(sep)\<close>.\<close>

fun join :: "string \<Rightarrow> string list \<Rightarrow> string" where
  "join sep [] = []"
| "join sep [x] = x"
| "join sep (x # y # ys) = x @ sep @ join sep (y # ys)"

text \<open>
  Numbers are IEEE doubles in the program. No arithmetic is ever done on them here, so
  a number is NaN, an infinity or a finite value; the sign of zero is not tracked.
\<close>

datatype number = NaN | PosInfinity | NegInfinity | Finite rat

datatype jsval =
    Undefined
  | Null
  | Bool bool
  | Number number
  | Str string
  | Arr "jsval list"

text \<open>
  A plain object (a parsed row, a payload, a defaults table) is a finite map from
  property names to values. A property may be present and hold \<open>undefined\<close>
  (\<open>Some Undefined\<close>); reading a missing property gives \<open>undefined\<close> too. Only own
  properties are modelled, not the ones every object inherits, and not their order.
\<close>

type_synonym obj = "string \<rightharpoonup> jsval"

definition read_prop :: "obj \<Rightarrow> string \<Rightarrow> jsval" where
  "read_prop row field = (case row field of None \<Rightarrow> Undefined | Some v \<Rightarrow> v)"

section \<open>The delimited-text parser\<close>

text \<open>
  The body of \<open>headers.forEach((header, index) => ...)\<close> in \<open>parseDelimitedText\<close>:
  the cell at \<open>index\<close>, trimmed, is stored under \<open>header\<close>; an empty cell is stored
  as \<open>undefined\<close>; a header past the last cell is not stored at all.
\<close>

definition assign_header :: "string list \<Rightarrow> obj \<Rightarrow> string \<times> nat \<Rightarrow> obj" where
  "assign_header vals row hi =
     (case hi of (header, index) \<Rightarrow>
        if index < length vals
        then (let v = trim (vals ! index) in row(header \<mapsto> (if v = [] then Undefined else Str v)))
        else row)"

definition row_of_line :: "char \<Rightarrow> string list \<Rightarrow> string \<Rightarrow> obj" where
  "row_of_line separator headers line =
     (let vals = split_on separator line
      in foldl (assign_header vals) Map.empty (zip headers [0..<length headers]))"

definition parseDelimitedText :: "string \<Rightarrow> string list \<Rightarrow> obj list" where
  "parseDelimitedText text headers =
     (if trim text = [] then []
      else
        (let lines = filter (\<lambda>line. length line > 0) (map trim (split_on LF text)) in
         case lines of
           [] \<Rightarrow> []
         | firstLine # _ \<Rightarrow>
             (let separator = (if TAB \<in> set firstLine then TAB else COMMA)
              in map (row_of_line separator headers) lines)))"

text \<open>
  \<open>handleParse\<close> of the \<open>PasteTable\<close> component repeats the same steps on the text
  area's content and hands the rows to \<open>onParse\<close>; it returns without calling
  \<open>onParse\<close> (\<open>None\<close>) when there is nothing to parse.
\<close>

definition PasteTable_handleParse :: "string \<Rightarrow> string list \<Rightarrow> obj list option" where
  "PasteTable_handleParse inputText headers =
     (if trim inputText = [] then None
      else
        (let lines = filter (\<lambda>line. length line > 0) (map trim (split_on LF inputText)) in
         case lines of
           [] \<Rightarrow> None
         | firstLine # _ \<Rightarrow>
             (let separator = (if TAB \<in> set firstLine then TAB else COMMA)
              in Some (map (row_of_line separator headers) lines))))"

text \<open>
  The vocabulary of the specification: the lines of a text that hold at least one
  character that is not white space, in their order in the text; and the fields of a row
  that hold a value.
\<close>

definition nonblank_lines :: "string \<Rightarrow> string list" where
  "nonblank_lines text = filter (\<lambda>line. \<exists>c \<in> set line. \<not> is_ws c) (split_on LF text)"

definition populated :: "obj \<Rightarrow> string set" where
  "populated row = {k. \<exists>v. row k = Some v \<and> v \<noteq> Undefined}"

text \<open>The separator the code settles on: read off the first such line once trimmed.\<close>

definition separator_of :: "string \<Rightarrow> char" where
  "separator_of text =
     (case nonblank_lines text of
        [] \<Rightarrow> COMMA
      | l # _ \<Rightarrow> if TAB \<in> set (trim l) then TAB else COMMA)"

text \<open>
  The separator as the sentence of the specification words it: tab when the first
  non-empty line of the text contains a tab.
\<close>

definition separator_by_raw_line :: "string \<Rightarrow> char" where
  "separator_by_raw_line text =
     (case nonblank_lines text of
        [] \<Rightarrow> COMMA
      | l # _ \<Rightarrow> if TAB \<in> set l then TAB else COMMA)"

section \<open>Platform functions\<close>

text \<open>
  The conversions between strings and numbers (\<open>Number(s)\<close>, \<open>String(n)\<close>) and the
  part of the \<open>URL\<close> constructor that follows the scheme belong to the JavaScript
  platform, not to the repository. They are parameters of the model; every theorem
  holds for all of them.
\<close>

record platform =
  Number_of_string :: "string \<Rightarrow> number"
  String_of_number :: "number \<Rightarrow> string"
  URL_rest_parses :: "string \<Rightarrow> bool"

definition truthy :: "jsval \<Rightarrow> bool" where
  "truthy v =
     (case v of
        Undefined \<Rightarrow> False
      | Null \<Rightarrow> False
      | Bool b \<Rightarrow> b
      | Number n \<Rightarrow> n \<noteq> NaN \<and> n \<noteq> Finite 0
      | Str s \<Rightarrow> s \<noteq> []
      | Arr _ \<Rightarrow> True)"

text \<open>The string a value is coerced to when a string is expected.\<close>

fun ToString :: "platform \<Rightarrow> jsval \<Rightarrow> string" where
  "ToString P Undefined = ''undefined''"
| "ToString P Null = ''null''"
| "ToString P (Bool b) = (if b then ''true'' else ''false'')"
| "ToString P (Number n) = String_of_number P n"
| "ToString P (Str s) = s"
| "ToString P (Arr vs) =
     join '','' (map (\<lambda>v. if v = Undefined \<or> v = Null then [] else ToString P v) vs)"

text \<open>
  \<open>new URL(s)\<close> without a base, as far as its scheme: the constructor drops leading and
  trailing C0 control and space characters and every tab and newline, then reads a
  letter followed by letters, digits, \<open>+\<close>, \<open>-\<close> and \<open>.\<close> up to a colon. An input with
  no such scheme makes it throw (\<open>None\<close>); with one, whether the rest parses is the
  platform's \<open>URL_rest_parses\<close>. The protocol is the lower-cased scheme and the colon.
\<close>

definition is_alpha :: "char \<Rightarrow> bool" where
  "is_alpha c \<longleftrightarrow>
     (let n = (of_char c :: nat) in (65 \<le> n \<and> n \<le> 90) \<or> (97 \<le> n \<and> n \<le> 122))"

definition is_digit :: "char \<Rightarrow> bool" where
  "is_digit c \<longleftrightarrow> (let n = (of_char c :: nat) in 48 \<le> n \<and> n \<le> 57)"

definition lower :: "char \<Rightarrow> char" where
  "lower c =
     (case map_of (zip ''ABCDEFGHIJKLMNOPQRSTUVWXYZ'' ''abcdefghijklmnopqrstuvwxyz'') c of
        None \<Rightarrow> c
      | Some l \<Rightarrow> l)"

definition is_c0_or_space :: "char \<Rightarrow> bool" where
  "is_c0_or_space c \<longleftrightarrow> (of_char c :: nat) \<le> 32"

definition scheme_char :: "char \<Rightarrow> bool" where
  "scheme_char c \<longleftrightarrow> is_alpha c \<or> is_digit c \<or> c = CHR ''+'' \<or> c = CHR ''-'' \<or> c = CHR ''.''"

definition url_scheme :: "string \<Rightarrow> string option" where
  "url_scheme input =
     (let stripped = rev (dropWhile is_c0_or_space (rev (dropWhile is_c0_or_space input)));
          s = filter (\<lambda>c. c \<noteq> CHR 0x09 \<and> c \<noteq> CHR 0x0A \<and> c \<noteq> CHR 0x0D) stripped
      in case s of
           [] \<Rightarrow> None
         | c # cs \<Rightarrow>
             if \<not> is_alpha c then None
             else (case dropWhile scheme_char cs of
                     [] \<Rightarrow> None
                   | d # _ \<Rightarrow>
                       if d = CHR '':'' then Some (map lower (c # takeWhile scheme_char cs))
                       else None))"

definition URL_protocol :: "platform \<Rightarrow> string \<Rightarrow> string option" where
  "URL_protocol P s =
     (case url_scheme s of
        None \<Rightarrow> None
      | Some scheme \<Rightarrow> if URL_rest_parses P s then Some (scheme @ '':'') else None)"

section \<open>Validation helpers of the utilities module\<close>

text \<open>
  \<open>isValidUrl\<close>: the \<open>try\<close> block builds the URL and compares its protocol; the
  \<open>catch\<close> returns false. The argument is typed as a string but the validators pass any
  value, which the constructor coerces to a string.
\<close>

definition isValidUrl :: "platform \<Rightarrow> jsval \<Rightarrow> bool" where
  "isValidUrl P urlString =
     (case URL_protocol P (ToString P urlString) of
        None \<Rightarrow> False
      | Some protocol \<Rightarrow> protocol = ''http:'' \<or> protocol = ''https:'')"

definition isValidNumber :: "platform \<Rightarrow> jsval \<Rightarrow> bool" where
  "isValidNumber P v =
     (case v of
        Number n \<Rightarrow> n \<noteq> NaN
      | Str s \<Rightarrow> Number_of_string P s \<noteq> NaN
      | _ \<Rightarrow> False)"

definition toNumber :: "platform \<Rightarrow> jsval \<Rightarrow> jsval" where
  "toNumber P v =
     (case v of
        Number n \<Rightarrow> Number n
      | Str s \<Rightarrow> (let num = Number_of_string P s in if num = NaN then Undefined else Number num)
      | _ \<Rightarrow> Undefined)"

section \<open>The row validator\<close>

record validation =
  isValid :: bool
  errors :: "string list"

text \<open>One turn of the loop over the required fields.\<close>

definition check_required :: "obj \<Rightarrow> string \<Rightarrow> string list" where
  "check_required row field =
     (if read_prop row field = Undefined \<or> read_prop row field = Null \<or> read_prop row field = Str []
      then [''Missing required field: '' @ field]
      else [])"

text \<open>
  One turn of the loop over \<open>Object.entries(typeValidations)\<close>. The condition is the
  chain \<open>row[field] !== undefined && row[field] !== null && validator && !validator(row[field])\<close>,
  which evaluates \<open>validator(row[field])\<close> only when the three conjuncts before it hold.
  The first component is what the turn pushes on \<open>errors\<close>; the second records the
  call of the predicate, if one is made, with its argument.
\<close>

definition check_validation ::
  "obj \<Rightarrow> string \<times> (jsval \<Rightarrow> bool) option \<Rightarrow> string list \<times> (string \<times> jsval) list" where
  "check_validation row fv =
     (case fv of (field, validator) \<Rightarrow>
        if read_prop row field \<noteq> Undefined \<and> read_prop row field \<noteq> Null
        then (case validator of
                None \<Rightarrow> ([], [])
              | Some v \<Rightarrow>
                  (if \<not> v (read_prop row field) then [''Invalid value for field: '' @ field] else [],
                   [(field, read_prop row field)]))
        else ([], []))"

definition validateRow ::
  "obj \<Rightarrow> string list \<Rightarrow> (string \<times> (jsval \<Rightarrow> bool) option) list \<Rightarrow> validation" where
  "validateRow row requiredFields typeValidations =
     (let errs = concat (map (check_required row) requiredFields)
                 @ concat (map (\<lambda>fv. fst (check_validation row fv)) typeValidations)
      in \<lparr>isValid = (length errs = 0), errors = errs\<rparr>)"

text \<open>The calls of predicates that \<open>validateRow\<close> makes, in order.\<close>

definition validator_calls ::
  "obj \<Rightarrow> (string \<times> (jsval \<Rightarrow> bool) option) list \<Rightarrow> (string \<times> jsval) list" where
  "validator_calls row typeValidations =
     concat (map (\<lambda>fv. snd (check_validation row fv)) typeValidations)"

section \<open>Default filling\<close>

definition filterUndefined :: "obj \<Rightarrow> obj" where
  "filterUndefined obj = (\<lambda>key. if obj key = Some Undefined then None else obj key)"

definition applyDefaults :: "obj \<Rightarrow> obj \<Rightarrow> obj" where
  "applyDefaults data defaults = defaults ++ filterUndefined data"

section \<open>The bulk competition page: constants and classification of parsed rows\<close>

definition HEADERS :: "string list" where
  "HEADERS =
     [''title'', ''shortDescription'', ''longDescription'', ''format'', ''category'', ''tags'',
      ''prizeAmount'', ''shortPrizeInfo'', ''registrationFee'', ''registrationInfo'',
      ''eligibilityInfo'', ''lastDayToRegister'', ''city'', ''state'', ''country'',
      ''websiteUrl'', ''competitionImageUrl'', ''teamSizeMin'', ''teamSizeMax'',
      ''universityName'', ''organizerName'']"


definition REQUIRED_FIELDS :: "string list" where
  "REQUIRED_FIELDS = [''title'']"

definition url_validation :: "platform \<Rightarrow> jsval \<Rightarrow> bool" where
  "url_validation P v \<longleftrightarrow> \<not> truthy v \<or> isValidUrl P v"

definition number_validation :: "platform \<Rightarrow> jsval \<Rightarrow> bool" where
  "number_validation P v \<longleftrightarrow> \<not> truthy v \<or> isValidNumber P v"

definition TYPE_VALIDATIONS :: "platform \<Rightarrow> (string \<times> (jsval \<Rightarrow> bool) option) list" where
  "TYPE_VALIDATIONS P =
     [(''websiteUrl'', Some (url_validation P)),
      (''competitionImageUrl'', Some (url_validation P)),
      (''prizeAmount'', Some (number_validation P)),
      (''registrationFee'', Some (number_validation P)),
      (''teamSizeMin'', Some (number_validation P)),
      (''teamSizeMax'', Some (number_validation P))]"

text \<open>
  \<open>handleParse\<close> of the bulk page. Each row is first copied with its four numeric
  fields passed through \<open>toNumber\<close>, then validated; a valid row is pushed on \<open>valid\<close>,
  any other on \<open>errors\<close> together with its messages joined by a comma and a space.
\<close>

definition processedRow :: "platform \<Rightarrow> obj \<Rightarrow> obj" where
  "processedRow P row =
     row(''prizeAmount'' \<mapsto> toNumber P (read_prop row ''prizeAmount''),
         ''registrationFee'' \<mapsto> toNumber P (read_prop row ''registrationFee''),
         ''teamSizeMin'' \<mapsto> toNumber P (read_prop row ''teamSizeMin''),
         ''teamSizeMax'' \<mapsto> toNumber P (read_prop row ''teamSizeMax''))"

record error_row =
  er_row :: obj
  er_error :: string

definition handleParse_step ::
  "platform \<Rightarrow> obj list \<times> error_row list \<Rightarrow> obj \<Rightarrow> obj list \<times> error_row list" where
  "handleParse_step P acc row =
     (case acc of (valid, errs) \<Rightarrow>
        (let processed = processedRow P row;
             v = validateRow processed REQUIRED_FIELDS (TYPE_VALIDATIONS P)
         in if isValid v then (valid @ [processed], errs)
            else (valid, errs @ [\<lparr>er_row = processed, er_error = join '', '' (errors v)\<rparr>])))"

definition handleParse :: "platform \<Rightarrow> obj list \<Rightarrow> obj list \<times> error_row list" where
  "handleParse P rows = foldl (handleParse_step P) ([], []) rows"

section \<open>Thrown values and awaited calls\<close>

text \<open>
  A thrown value is an \<open>Error\<close> carrying a message, or some other value. Awaiting a
  call to a service outside the page either throws (the promise is rejected) or gives
  the value the promise resolved to.
\<close>

datatype thrown = Error string | NonError

datatype 'a awaited = Rejected thrown | Resolved 'a

section \<open>The text-shortening endpoint\<close>

text \<open>
  A parsed JSON value. In an object a later binding of a key overrides an earlier one,
  as \<open>JSON.parse\<close> has it.
\<close>

datatype json =
    JNull
  | JBool bool
  | JNumber rat
  | JString string
  | JArray "json list"
  | JObject "(string \<times> json) list"

definition json_truthy :: "json \<Rightarrow> bool" where
  "json_truthy j =
     (case j of
        JNull \<Rightarrow> False
      | JBool b \<Rightarrow> b
      | JNumber q \<Rightarrow> q \<noteq> 0
      | JString s \<Rightarrow> s \<noteq> []
      | JArray _ \<Rightarrow> True
      | JObject _ \<Rightarrow> True)"

text \<open>
  The property of a parsed body under a key: an object has it or not; no other JSON value
  has one. \<open>const { key } = body\<close> reads it, except that destructuring \<open>null\<close> throws a
  \<open>TypeError\<close>. \<open>None\<close> stands for \<open>undefined\<close>.
\<close>

definition json_field :: "json \<Rightarrow> string \<Rightarrow> json option" where
  "json_field j key = (case j of JObject kvs \<Rightarrow> map_of (rev kvs) key | _ \<Rightarrow> None)"

definition destructure :: "json \<Rightarrow> string \<Rightarrow> thrown + json option" where
  "destructure parsed key =
     (case parsed of
        JNull \<Rightarrow> Inl (Error ''Cannot destructure property of null'')
      | _ \<Rightarrow> Inr (json_field parsed key))"

text \<open>
  The answer of the chat completion service: a list of choices, each with the content of
  its message if it has one. The server's environment holds the API key, if any, and the
  service, which answers a request for the given user content or fails.
\<close>

datatype choice = Choice (message_content: "string option")

record chat_completion =
  choices :: "choice list"

record server =
  OPENAI_API_KEY :: "string option"
  chat_completions_create :: "json \<Rightarrow> chat_completion awaited"

definition isOpenAIAvailable :: "server \<Rightarrow> bool" where
  "isOpenAIAvailable srv = (case OPENAI_API_KEY srv of None \<Rightarrow> False | Some k \<Rightarrow> k \<noteq> [])"

definition isOpenAIEnabled :: "server \<Rightarrow> bool" where
  "isOpenAIEnabled srv = isOpenAIAvailable srv"

text \<open>
  \<open>generateShortDescription\<close>: \<open>None\<close> is \<open>null\<close>. The expression
  \<open>response.choices[0]?.message?.content?.trim() || null\<close> gives \<open>null\<close> when there is
  no first choice, no content, or the trimmed content is empty; the \<open>catch\<close> turns a
  failed call into \<open>null\<close> as well.
\<close>

definition generateShortDescription :: "server \<Rightarrow> json \<Rightarrow> string option" where
  "generateShortDescription srv longDescription =
     (if \<not> isOpenAIAvailable srv then None
      else
        (case chat_completions_create srv longDescription of
           Rejected _ \<Rightarrow> None
         | Resolved response \<Rightarrow>
             (case choices response of
                [] \<Rightarrow> None
              | c # _ \<Rightarrow>
                  (case message_content c of
                     None \<Rightarrow> None
                   | Some content \<Rightarrow> if trim content = [] then None else Some (trim content)))))"

record http_response =
  http_status :: nat
  http_body :: json

definition json_error :: "string \<Rightarrow> nat \<Rightarrow> http_response" where
  "json_error msg code = \<lparr>http_status = code, http_body = JObject [(''error'', JString msg)]\<rparr>"

text \<open>
  The \<open>POST\<close> handler. Its second argument is the outcome of \<open>await req.json()\<close>, which
  throws when the request body is not JSON. Everything thrown inside the \<open>try\<close> block
  ends in the \<open>catch\<close>, which answers 500. \<open>!longDescription\<close> holds for \<open>undefined\<close>
  and for every falsy value.
\<close>

definition POST :: "server \<Rightarrow> json awaited \<Rightarrow> http_response" where
  "POST srv req_json =
     (if \<not> isOpenAIEnabled srv then json_error ''OpenAI API is not configured'' 503
      else
        (case req_json of
           Rejected _ \<Rightarrow> json_error ''Internal server error'' 500
         | Resolved parsed \<Rightarrow>
             (case destructure parsed ''longDescription'' of
                Inl _ \<Rightarrow> json_error ''Internal server error'' 500
              | Inr None \<Rightarrow> json_error ''Missing longDescription in request body'' 400
              | Inr (Some longDescription) \<Rightarrow>
                  (if \<not> json_truthy longDescription
                   then json_error ''Missing longDescription in request body'' 400
                   else
                     (case generateShortDescription srv longDescription of
                        None \<Rightarrow> json_error ''Failed to generate short description'' 500
                      | Some shortDescription \<Rightarrow>
                          \<lparr>http_status = 200,
                           http_body = JObject [(''shortDescription'', JString shortDescription)]\<rparr>)))))"

section \<open>The remote store and the foreign-key resolvers\<close>

text \<open>
  The page talks to the store through a client library that is not part of the
  repository. The two kinds of call the code makes are
  \<open>from(t).select(c).ilike(col, p).single()\<close> and \<open>from(t).insert(rows)\<close>; an awaited
  call gives a response with a \<open>data\<close> and an \<open>error\<close> field (the page destructures
  both), unless the call itself is rejected.
\<close>

datatype request =
    Select_single (from_table: string) (select_columns: string) (ilike_column: string)
      (ilike_pattern: string)
  | Insert (into_table: string) (inserted_rows: "obj list")

record store_response =
  data :: "obj option"
  error :: "string option"

text \<open>
  The environment of the page: the clock, the UUID generator and the store. Each answers
  as a function of everything the page has asked so far, so that any sequence of answers
  is an environment. Every call is recorded in the history.
\<close>

datatype event = Read_clock | New_uuid | Store request

record env =
  clock :: "event list \<Rightarrow> string"
  uuid :: "event list \<Rightarrow> string"
  store :: "event list \<Rightarrow> request \<Rightarrow> store_response awaited"



definition await_store :: "env \<Rightarrow> event list \<Rightarrow> request \<Rightarrow> store_response awaited \<times> event list" where
  "await_store e h q = (store e h q, h @ [Store q])"

text \<open>\<open>data?.key ?? null\<close> on the response of a single-row query.\<close>

definition data_key_or_null :: "store_response \<Rightarrow> string \<Rightarrow> jsval" where
  "data_key_or_null r key =
     (case data r of
        None \<Rightarrow> Null
      | Some d \<Rightarrow> if read_prop d key = Undefined then Null else read_prop d key)"

text \<open>
  The resolvers. Each returns \<open>null\<close> at once for an empty name; otherwise it awaits
  one query and returns the key of the row in \<open>data\<close>, or \<open>null\<close>. The \<open>error\<close> field of
  the response is not read. A rejected query makes the resolver throw, since nothing
  catches it.
\<close>

definition resolveUniversityId :: "env \<Rightarrow> event list \<Rightarrow> string \<Rightarrow> jsval awaited \<times> event list" where
  "resolveUniversityId e h name =
     (if name = [] then (Resolved Null, h)
      else
        (case await_store e h (Select_single ''university'' ''id'' ''name'' name) of
           (Rejected x, h') \<Rightarrow> (Rejected x, h')
         | (Resolved r, h') \<Rightarrow> (Resolved (data_key_or_null r ''id''), h')))"

definition resolveOrganizerId :: "env \<Rightarrow> event list \<Rightarrow> string \<Rightarrow> jsval awaited \<times> event list" where
  "resolveOrganizerId e h name =
     (if name = [] then (Resolved Null, h)
      else
        (case await_store e h (Select_single ''organizer'' ''orgId'' ''orgName'' name) of
           (Rejected x, h') \<Rightarrow> (Rejected x, h')
         | (Resolved r, h') \<Rightarrow> (Resolved (data_key_or_null r ''orgId''), h')))"

definition resolveCompetitionId :: "env \<Rightarrow> event list \<Rightarrow> string \<Rightarrow> jsval awaited \<times> event list" where
  "resolveCompetitionId e h title =
     (if title = [] then (Resolved Null, h)
      else
        (case await_store e h (Select_single ''competition'' ''id'' ''title'' title) of
           (Rejected x, h') \<Rightarrow> (Rejected x, h')
         | (Resolved r, h') \<Rightarrow> (Resolved (data_key_or_null r ''id''), h')))"

text \<open>
  Modelled from the spec: the matching done by the store, which is outside the
  repository. The specification describes the lookup as a case-insensitive equality
  match of the given name against the name column of the reference table.
\<close>

definition ci_equal :: "string \<Rightarrow> string \<Rightarrow> bool" where
  "ci_equal a b \<longleftrightarrow> map lower a = map lower b"

definition matching_rows :: "(string \<Rightarrow> obj list) \<Rightarrow> string \<Rightarrow> string \<Rightarrow> string \<Rightarrow> obj list" where
  "matching_rows tables t col name =
     filter (\<lambda>r. case read_prop r col of Str s \<Rightarrow> ci_equal s name | _ \<Rightarrow> False) (tables t)"

text \<open>
  Modelled from the spec: the single-row query of the store client, which is outside the
  repository. The specification has it give the matching row, give no row when nothing
  matches, and itself error (throw) when several rows match. \<open>select(c)\<close> keeps the
  column \<open>c\<close> of the row. Inserts are accepted.
\<close>

definition lookup_store :: "(string \<Rightarrow> obj list) \<Rightarrow> event list \<Rightarrow> request \<Rightarrow> store_response awaited" where
  "lookup_store tables h q =
     (case q of
        Select_single t c col name \<Rightarrow>
          (case matching_rows tables t col name of
             [] \<Rightarrow> Resolved \<lparr>data = None, error = None\<rparr>
           | [r] \<Rightarrow> Resolved \<lparr>data = Some (r |` {c}), error = None\<rparr>
           | _ \<Rightarrow> Rejected (Error ''multiple rows returned''))
      | Insert t rows \<Rightarrow> Resolved \<lparr>data = None, error = None\<rparr>)"

section \<open>Submission of the valid rows\<close>

datatype log_status = LogSuccess | LogError | LogSkipped














text \<open>The inserts among the calls of a history, in order.\<close>

definition inserts_of :: "event list \<Rightarrow> obj list list" where
  "inserts_of h = concat (map (\<lambda>ev. case ev of Store (Insert t rows) \<Rightarrow> [rows] | _ \<Rightarrow> []) h)"

text \<open>
  A small platform on which the model is run on concrete inputs. Its \<open>Number\<close> reads
  unsigned decimal numerals and gives NaN on anything else, and its \<open>String\<close> writes
  natural numbers in decimal; the inputs used below hold no other numbers, and their
  strings are either such numerals or plainly not numeric, such as \<open>abc\<close>. Every
  input with a scheme is taken to be a well-formed URL.
\<close>

definition decimal_value :: "string \<Rightarrow> nat" where
  "decimal_value s = foldl (\<lambda>n c. 10 * n + (of_char c - 48)) 0 s"

function decimal_digits :: "nat \<Rightarrow> string" where
  "decimal_digits n =
     (if n < 10 then [''0123456789'' ! n]
      else decimal_digits (n div 10) @ [''0123456789'' ! (n mod 10)])"
  by pat_completeness auto
termination
  by (relation "measure id") auto

declare decimal_digits.simps [simp del]

definition sample_platform :: platform where
  "sample_platform =
     \<lparr>Number_of_string =
        (\<lambda>s. if s \<noteq> [] \<and> list_all is_digit s then Finite (of_nat (decimal_value s)) else NaN),
      String_of_number =
        (\<lambda>n. case n of
                NaN \<Rightarrow> ''NaN''
              | PosInfinity \<Rightarrow> ''Infinity''
              | NegInfinity \<Rightarrow> ''-Infinity''
              | Finite q \<Rightarrow> decimal_digits (nat \<lfloor>q\<rfloor>)),
      URL_rest_parses = (\<lambda>s. True)\<rparr>"

text \<open>A server with a key, whose completion service answers every request with one choice.\<close>

definition sample_server :: server where
  "sample_server =
     \<lparr>OPENAI_API_KEY = Some ''sk-test'',
      chat_completions_create = (\<lambda>content. Resolved \<lparr>choices = [Choice (Some '' A short text. '')]\<rparr>)\<rparr>"

text \<open>
  An environment with a fixed clock, ids numbered by the length of the history, and the
  store above over two small reference tables.
\<close>

definition sample_tables :: "string \<Rightarrow> obj list" where
  "sample_tables t =
     (if t = ''university''
      then [[''id'' \<mapsto> Str ''u1'', ''name'' \<mapsto> Str ''MIT''],
            [''id'' \<mapsto> Str ''u2'', ''name'' \<mapsto> Str ''Yale''],
            [''id'' \<mapsto> Str ''u3'', ''name'' \<mapsto> Str ''yale'']]
      else if t = ''organizer''
      then [[''orgId'' \<mapsto> Str ''o1'', ''orgName'' \<mapsto> Str ''Case Club'']]
      else [])"

definition sample_env :: env where
  "sample_env =
     \<lparr>clock = (\<lambda>h. ''2024-01-01T00:00:00.000Z''),
      uuid = (\<lambda>h. ''id-'' @ decimal_digits (length h)),
      store = lookup_store sample_tables\<rparr>"

text \<open>
  A second environment, whose store answers every call with a response: a single-row
  query gets the one matching row, or a response with no row and an error message; the
  insert of a competition titled \<open>Dup\<close> gets a response with an error message. And a
  page with two valid rows to submit.
\<close>

definition flaky_env :: env where
  "flaky_env =
     sample_env\<lparr>store :=
       (\<lambda>h q. case q of
                 Select_single t c col name \<Rightarrow>
                   (case matching_rows sample_tables t col name of
                      [r] \<Rightarrow> Resolved \<lparr>data = Some (r |` {c}), error = None\<rparr>
                    | _ \<Rightarrow> Resolved \<lparr>data = None, error = Some ''no single row''\<rparr>)
               | Insert t rows \<Rightarrow>
                   (if list_ex (\<lambda>pl. read_prop pl ''title'' = Str ''Dup'') rows
                    then Resolved \<lparr>data = None, error = Some ''duplicate key value''\<rparr>
                    else Resolved \<lparr>data = None, error = None\<rparr>))\<rparr>"


section \<open>Facts about trimming and splitting\<close>

lemma all_dropWhile_iff: "(\<forall>c \<in> set (dropWhile P s). P c) \<longleftrightarrow> (\<forall>c \<in> set s. P c)"
proof
  assume a: "\<forall>c \<in> set (dropWhile P s). P c"
  have "dropWhile P s = []"
  proof (cases "dropWhile P s")
    case Nil
    then show ?thesis .
  next
    case (Cons y ys)
    then have "\<not> P y" by (metis hd_dropWhile list.sel(1) list.distinct(1))
    moreover have "P y" using a Cons by simp
    ultimately show ?thesis by simp
  qed
  then show "\<forall>c \<in> set s. P c" by (simp add: dropWhile_eq_Nil_conv)
next
  assume "\<forall>c \<in> set s. P c"
  then show "\<forall>c \<in> set (dropWhile P s). P c" by (auto dest: set_dropWhileD)
qed

lemma trim_empty_iff: "trim s = [] \<longleftrightarrow> (\<forall>c \<in> set s. is_ws c)"
proof -
  have "trim s = [] \<longleftrightarrow> (\<forall>c \<in> set (dropWhile is_ws s). is_ws c)"
    by (simp add: trim_def dropWhile_eq_Nil_conv)
  then show ?thesis by (simp only: all_dropWhile_iff)
qed

lemma split_on_not_Nil: "split_on c s \<noteq> []"
  by (induction s) (auto split: list.splits)

lemma set_split_on_subset: "l \<in> set (split_on c s) \<Longrightarrow> set l \<subseteq> set s"
proof (induction s arbitrary: l)
  case Nil
  then show ?case by simp
next
  case (Cons x xs)
  obtain y ys where sp: "split_on c xs = y # ys"
    using split_on_not_Nil by (cases "split_on c xs") auto
  show ?case
  proof (cases "x = c")
    case True
    with Cons show ?thesis by auto
  next
    case False
    with Cons.prems sp have "l = x # y \<or> l \<in> set ys" by simp
    then show ?thesis
    proof
      assume "l = x # y"
      moreover have "set y \<subseteq> set xs" using Cons.IH[of y] sp by simp
      ultimately show ?thesis by auto
    next
      assume "l \<in> set ys"
      then have "set l \<subseteq> set xs" using Cons.IH[of l] sp by simp
      then show ?thesis by auto
    qed
  qed
qed

lemma trimmed_lines_eq:
  "filter (\<lambda>line. line \<noteq> []) (map trim (split_on LF text)) = map trim (nonblank_lines text)"
proof -
  have "filter (\<lambda>line. line \<noteq> []) (map trim ls)
        = map trim (filter (\<lambda>line. \<exists>c \<in> set line. \<not> is_ws c) ls)" for ls
    by (induction ls) (auto simp: trim_empty_iff)
  then show ?thesis by (simp add: nonblank_lines_def)
qed

lemma blank_text_no_lines: "trim text = [] \<Longrightarrow> nonblank_lines text = []"
proof -
  assume "trim text = []"
  then have ws: "\<forall>c \<in> set text. is_ws c" by (simp add: trim_empty_iff)
  have "\<forall>l \<in> set (split_on LF text). \<forall>c \<in> set l. is_ws c"
    using ws set_split_on_subset by blast
  then show ?thesis by (auto simp: nonblank_lines_def filter_empty_conv)
qed

lemma parseDelimitedText_eq:
  "parseDelimitedText text headers
   = map (row_of_line (separator_of text) headers) (map trim (nonblank_lines text))"
proof (cases "trim text = []")
  case True
  then show ?thesis by (simp add: parseDelimitedText_def blank_text_no_lines)
next
  case False
  show ?thesis
  proof (cases "nonblank_lines text")
    case Nil
    with False show ?thesis
      by (simp add: parseDelimitedText_def trimmed_lines_eq Let_def)
  next
    case (Cons l ls)
    with False show ?thesis
      by (simp add: parseDelimitedText_def trimmed_lines_eq separator_of_def Let_def)
  qed
qed

lemma PasteTable_handleParse_eq:
  "PasteTable_handleParse text headers
   = (if nonblank_lines text = [] then None else Some (parseDelimitedText text headers))"
proof (cases "trim text = []")
  case True
  then show ?thesis by (simp add: PasteTable_handleParse_def blank_text_no_lines)
next
  case False
  show ?thesis
  proof (cases "nonblank_lines text")
    case Nil
    with False show ?thesis
      by (simp add: PasteTable_handleParse_def trimmed_lines_eq Let_def)
  next
    case (Cons l ls)
    with False show ?thesis
      by (simp add: PasteTable_handleParse_def parseDelimitedText_def trimmed_lines_eq Let_def)
  qed
qed

lemma set_trim_subset: "set (trim s) \<subseteq> set s"
proof -
  have "set (trim s) = set (dropWhile is_ws (rev (dropWhile is_ws s)))"
    by (simp add: trim_def)
  also have "\<dots> \<subseteq> set (rev (dropWhile is_ws s))"
    by (auto dest: set_dropWhileD)
  also have "\<dots> \<subseteq> set s"
    by (auto dest: set_dropWhileD)
  finally show ?thesis .
qed

lemma parse_by_trimmed_first_line:
  assumes lines: "nonblank_lines text = l # ls"
  shows "parseDelimitedText text headers
     = map (\<lambda>line. row_of_line (if TAB \<in> set (trim l) then TAB else COMMA) headers (trim line))
         (l # ls)"
proof -
  have sep: "separator_of text = (if TAB \<in> set (trim l) then TAB else COMMA)"
    using lines by (simp add: separator_of_def)
  have "parseDelimitedText text headers
        = map (\<lambda>line. row_of_line (separator_of text) headers (trim line)) (nonblank_lines text)"
    by (simp add: parseDelimitedText_eq comp_def)
  then show ?thesis
    by (simp only: sep lines)
qed

lemma dom_foldl_assign_header:
  "dom (foldl (assign_header vals) row his) \<subseteq> dom row \<union> fst ` set his"
proof (induction his arbitrary: row)
  case Nil
  then show ?case by simp
next
  case (Cons hi his)
  have "dom (assign_header vals row hi) \<subseteq> dom row \<union> {fst hi}"
    by (cases hi) (auto simp: assign_header_def Let_def split: if_splits)
  with Cons.IH[of "assign_header vals row hi"] show ?case by auto
qed

lemma dom_row_of_line: "dom (row_of_line separator headers line) \<subseteq> set headers"
proof -
  have "fst ` set (zip headers [0..<length headers]) \<subseteq> set headers"
    by (auto dest: set_zip_leftD)
  with dom_foldl_assign_header[of "split_on separator line" Map.empty "zip headers [0..<length headers]"]
  show ?thesis by (auto simp: row_of_line_def Let_def)
qed

lemma populated_subset_dom: "populated row \<subseteq> dom row"
  by (auto simp: populated_def)

lemma card_populated_row_of_line:
  "card (populated (row_of_line separator headers line)) \<le> length headers"
proof -
  have "populated (row_of_line separator headers line) \<subseteq> set headers"
    using populated_subset_dom dom_row_of_line by blast
  then have "card (populated (row_of_line separator headers line)) \<le> card (set headers)"
    by (simp add: card_mono)
  also have "\<dots> \<le> length headers" by (rule card_length)
  finally show ?thesis .
qed

section \<open>Facts about validation\<close>

lemma errors_validateRow:
  "errors (validateRow row requiredFields typeValidations)
   = concat (map (check_required row) requiredFields)
     @ concat (map (\<lambda>fv. fst (check_validation row fv)) typeValidations)"
  by (simp add: validateRow_def Let_def)

lemma isValid_validateRow:
  "isValid (validateRow row requiredFields typeValidations)
   \<longleftrightarrow> errors (validateRow row requiredFields typeValidations) = []"
  by (simp add: validateRow_def Let_def)

lemma missing_in_errors:
  assumes "field \<in> set requiredFields"
    and "read_prop row field = Undefined \<or> read_prop row field = Null \<or> read_prop row field = Str []"
  shows "(''Missing required field: '' @ field) \<in> set (errors (validateRow row requiredFields typeValidations))"
proof -
  have "(''Missing required field: '' @ field) \<in> set (check_required row field)"
    using assms(2) by (simp add: check_required_def)
  with assms(1) have "(''Missing required field: '' @ field) \<in> set (concat (map (check_required row) requiredFields))"
    by auto
  then show ?thesis by (simp add: errors_validateRow)
qed

lemma invalid_not_from_required:
  "(''Invalid value for field: '' @ field) \<notin> set (check_required row g)"
  by (simp add: check_required_def)

lemma invalid_from_validation:
  "(''Invalid value for field: '' @ field) \<in> set (fst (check_validation row (g, validator)))
   \<Longrightarrow> g = field \<and> read_prop row field \<noteq> Undefined \<and> read_prop row field \<noteq> Null
       \<and> (\<exists>p. validator = Some p \<and> \<not> p (read_prop row field))"
  by (auto simp: check_validation_def split: if_splits option.splits)

lemma call_from_validation:
  "(f, v) \<in> set (snd (check_validation row (g, validator)))
   \<Longrightarrow> f = g \<and> v = read_prop row g \<and> v \<noteq> Undefined \<and> v \<noteq> Null \<and> validator \<noteq> None"
  by (auto simp: check_validation_def split: if_splits option.splits)

lemma number_validation_toNumber: "number_validation P (toNumber P v)"
  by (cases v) (auto simp: number_validation_def toNumber_def truthy_def isValidNumber_def Let_def)

lemma not_a_url_invalid: "\<not> url_validation P (Str ''not-a-url'')"
  by (simp add: url_validation_def truthy_def isValidUrl_def URL_protocol_def url_scheme_def
      is_c0_or_space_def is_alpha_def scheme_char_def is_digit_def)

lemma read_processedRow:
  "read_prop (processedRow P row) k =
     (if k \<in> {''prizeAmount'', ''registrationFee'', ''teamSizeMin'', ''teamSizeMax''}
      then toNumber P (read_prop row k) else read_prop row k)"
  by (auto simp: processedRow_def read_prop_def)

lemma processed_reads:
  "read_prop (processedRow P row) ''title'' = read_prop row ''title''"
  "read_prop (processedRow P row) ''websiteUrl'' = read_prop row ''websiteUrl''"
  "read_prop (processedRow P row) ''competitionImageUrl'' = read_prop row ''competitionImageUrl''"
  "read_prop (processedRow P row) ''prizeAmount'' = toNumber P (read_prop row ''prizeAmount'')"
  "read_prop (processedRow P row) ''registrationFee'' = toNumber P (read_prop row ''registrationFee'')"
  "read_prop (processedRow P row) ''teamSizeMin'' = toNumber P (read_prop row ''teamSizeMin'')"
  "read_prop (processedRow P row) ''teamSizeMax'' = toNumber P (read_prop row ''teamSizeMax'')"
  by (simp_all add: processedRow_def read_prop_def)

lemma check_validation_number:
  "read_prop r k = toNumber P v \<Longrightarrow> fst (check_validation r (k, Some (number_validation P))) = []"
  by (simp add: check_validation_def number_validation_toNumber)

lemma check_validation_url:
  "fst (check_validation r (k, Some (url_validation P)))
   = (if url_validation P (read_prop r k) then [] else [''Invalid value for field: '' @ k])"
  by (auto simp: check_validation_def url_validation_def truthy_def)

lemma url_validation_nullish [simp]:
  "url_validation P Undefined" "url_validation P Null"
  by (simp_all add: url_validation_def truthy_def)

lemma processed_errors':
  "errors (validateRow (processedRow P row) REQUIRED_FIELDS (TYPE_VALIDATIONS P))
   = check_required row ''title''
     @ (if url_validation P (read_prop row ''websiteUrl'') then []
        else [''Invalid value for field: websiteUrl''])
     @ (if url_validation P (read_prop row ''competitionImageUrl'') then []
        else [''Invalid value for field: competitionImageUrl''])"
proof -
  have r: "check_required (processedRow P row) ''title'' = check_required row ''title''"
    by (simp only: check_required_def processed_reads)
  have n: "fst (check_validation (processedRow P row) (''prizeAmount'', Some (number_validation P))) = []"
    "fst (check_validation (processedRow P row) (''registrationFee'', Some (number_validation P))) = []"
    "fst (check_validation (processedRow P row) (''teamSizeMin'', Some (number_validation P))) = []"
    "fst (check_validation (processedRow P row) (''teamSizeMax'', Some (number_validation P))) = []"
    by (rule check_validation_number, rule processed_reads)+
  have u: "fst (check_validation (processedRow P row) (''websiteUrl'', Some (url_validation P)))
           = (if url_validation P (read_prop row ''websiteUrl'') then []
              else [''Invalid value for field: '' @ ''websiteUrl''])"
    "fst (check_validation (processedRow P row) (''competitionImageUrl'', Some (url_validation P)))
           = (if url_validation P (read_prop row ''competitionImageUrl'') then []
              else [''Invalid value for field: '' @ ''competitionImageUrl''])"
    by (simp_all only: check_validation_url processed_reads)
  have "errors (validateRow (processedRow P row) REQUIRED_FIELDS (TYPE_VALIDATIONS P))
        = check_required row ''title''
          @ (if url_validation P (read_prop row ''websiteUrl'') then []
             else [''Invalid value for field: '' @ ''websiteUrl''])
          @ (if url_validation P (read_prop row ''competitionImageUrl'') then []
             else [''Invalid value for field: '' @ ''competitionImageUrl''])"
    unfolding errors_validateRow REQUIRED_FIELDS_def TYPE_VALIDATIONS_def
    by (simp only: list.map concat.simps r n u append_Nil append_Nil2 append_assoc)
  then show ?thesis by simp
qed

lemma handleParse_foldl:
  "foldl (handleParse_step P) (valid, errs) rows
   = (valid @ map (processedRow P)
               (filter (\<lambda>r. isValid (validateRow (processedRow P r) REQUIRED_FIELDS (TYPE_VALIDATIONS P))) rows),
      errs @ map (\<lambda>r. \<lparr>er_row = processedRow P r,
                        er_error = join '', '' (errors (validateRow (processedRow P r) REQUIRED_FIELDS (TYPE_VALIDATIONS P)))\<rparr>)
               (filter (\<lambda>r. \<not> isValid (validateRow (processedRow P r) REQUIRED_FIELDS (TYPE_VALIDATIONS P))) rows))"
  by (induction rows arbitrary: valid errs) (simp_all add: handleParse_step_def Let_def)

lemma handleParse_eq:
  "handleParse P rows
   = (map (processedRow P)
        (filter (\<lambda>r. isValid (validateRow (processedRow P r) REQUIRED_FIELDS (TYPE_VALIDATIONS P))) rows),
      map (\<lambda>r. \<lparr>er_row = processedRow P r,
                 er_error = join '', '' (errors (validateRow (processedRow P r) REQUIRED_FIELDS (TYPE_VALIDATIONS P)))\<rparr>)
        (filter (\<lambda>r. \<not> isValid (validateRow (processedRow P r) REQUIRED_FIELDS (TYPE_VALIDATIONS P))) rows))"
  by (simp add: handleParse_def handleParse_foldl)

lemma join_Cons: "join sep (x # xs) = x @ (if xs = [] then [] else sep @ join sep xs)"
  by (cases xs) simp_all

lemma missing_only_from_required:
  "(''Missing required field: '' @ field) \<in> set (errors (validateRow row requiredFields typeValidations))
   \<longleftrightarrow> (\<exists>g \<in> set requiredFields. (''Missing required field: '' @ field) \<in> set (check_required row g))"
  by (auto simp: errors_validateRow check_validation_def split: if_splits option.splits)

lemma isValid_processed:
  "isValid (validateRow (processedRow P row) REQUIRED_FIELDS (TYPE_VALIDATIONS P))
   \<longleftrightarrow> check_required row ''title'' = []
       \<and> url_validation P (read_prop row ''websiteUrl'')
       \<and> url_validation P (read_prop row ''competitionImageUrl'')"
  by (simp add: isValid_validateRow processed_errors')

lemma handleParse_valid_iff:
  "r \<in> set rows \<Longrightarrow>
   processedRow P r \<in> set (fst (handleParse P rows))
   \<longleftrightarrow> isValid (validateRow (processedRow P r) REQUIRED_FIELDS (TYPE_VALIDATIONS P))"
  by (auto simp: handleParse_eq)

lemma handleParse_error_row:
  "r \<in> set rows \<Longrightarrow>
   \<not> isValid (validateRow (processedRow P r) REQUIRED_FIELDS (TYPE_VALIDATIONS P)) \<Longrightarrow>
   \<lparr>er_row = processedRow P r,
    er_error = join '', '' (errors (validateRow (processedRow P r) REQUIRED_FIELDS (TYPE_VALIDATIONS P)))\<rparr>
     \<in> set (snd (handleParse P rows))"
  by (auto simp: handleParse_eq)

section \<open>Facts about the endpoint\<close>

lemma generateShortDescription_None_iff:
  "isOpenAIAvailable srv \<Longrightarrow>
   generateShortDescription srv j = None
   \<longleftrightarrow> (case chat_completions_create srv j of
          Rejected _ \<Rightarrow> True
        | Resolved response \<Rightarrow>
            (case choices response of
               [] \<Rightarrow> True
             | c # _ \<Rightarrow> (case message_content c of None \<Rightarrow> True | Some content \<Rightarrow> trim content = [])))"
  by (simp add: generateShortDescription_def split: awaited.splits list.splits option.splits)

section \<open>Facts about the store\<close>

lemma lookup_store_single:
  "(case lookup_store tables h (Select_single t key col name) of
      Rejected x \<Rightarrow> Rejected x
    | Resolved r \<Rightarrow> Resolved (data_key_or_null r key))
   = (case matching_rows tables t col name of
        [] \<Rightarrow> Resolved Null
      | [r] \<Rightarrow> Resolved (if read_prop r key = Undefined then Null else read_prop r key)
      | _ \<Rightarrow> Rejected (Error ''multiple rows returned''))"
  by (simp add: lookup_store_def data_key_or_null_def read_prop_def restrict_map_def
      split: list.splits)

lemma sample_matches:
  "matching_rows sample_tables ''university'' ''name'' ''mit'' = [[''id'' \<mapsto> Str ''u1'', ''name'' \<mapsto> Str ''MIT'']]"
  "matching_rows sample_tables ''university'' ''name'' ''Oslo'' = []"
  "matching_rows sample_tables ''university'' ''name'' ''YALE''
     = [[''id'' \<mapsto> Str ''u2'', ''name'' \<mapsto> Str ''Yale''], [''id'' \<mapsto> Str ''u3'', ''name'' \<mapsto> Str ''yale'']]"
  "matching_rows sample_tables ''organizer'' ''orgName'' ''case club'' = [[''orgId'' \<mapsto> Str ''o1'', ''orgName'' \<mapsto> Str ''Case Club'']]"
  by (simp_all add: matching_rows_def sample_tables_def read_prop_def ci_equal_def lower_def)

section \<open>Facts about submission\<close>


lemma inserts_of_append [simp]: "inserts_of (h @ h') = inserts_of h @ inserts_of h'"
  by (simp add: inserts_of_def)

lemma inserts_of_simps [simp]:
  "inserts_of [] = []"
  "inserts_of (Read_clock # h) = inserts_of h"
  "inserts_of (New_uuid # h) = inserts_of h"
  "inserts_of (Store (Select_single t c col p) # h) = inserts_of h"
  "inserts_of (Store (Insert t rows) # h) = rows # inserts_of h"
  by (simp_all add: inserts_of_def)





















section \<open>The claims\<close>

text \<open>
  Claim C1. For every pasted text and every header list, the parser returns exactly one
  row per line that is not empty after trimming, in the order of the lines (each row is
  built from the corresponding trimmed line with one separator for the whole text), and
  a row only has properties named in the header list, so that at most as many fields as
  there are headers hold a value. The handler of the paste component hands the same rows
  to its callback whenever there is such a line.
\<close>

theorem C1_parse_rows:
  "length (parseDelimitedText text headers) = length (nonblank_lines text)
   \<and> (\<exists>separator. parseDelimitedText text headers
          = map (\<lambda>line. row_of_line separator headers (trim line)) (nonblank_lines text))
   \<and> (\<forall>row \<in> set (parseDelimitedText text headers).
          dom row \<subseteq> set headers \<and> card (populated row) \<le> length headers)
   \<and> PasteTable_handleParse text headers
       = (if nonblank_lines text = [] then None else Some (parseDelimitedText text headers))"
proof (intro conjI)
  show "length (parseDelimitedText text headers) = length (nonblank_lines text)"
    by (simp add: parseDelimitedText_eq)
  show "\<exists>separator. parseDelimitedText text headers
          = map (\<lambda>line. row_of_line separator headers (trim line)) (nonblank_lines text)"
    by (rule exI[of _ "separator_of text"]) (simp add: parseDelimitedText_eq comp_def)
  show "\<forall>row \<in> set (parseDelimitedText text headers).
          dom row \<subseteq> set headers \<and> card (populated row) \<le> length headers"
    using dom_row_of_line card_populated_row_of_line
    by (auto simp: parseDelimitedText_eq)
  show "PasteTable_handleParse text headers
       = (if nonblank_lines text = [] then None else Some (parseDelimitedText text headers))"
    by (rule PasteTable_handleParse_eq)
qed

theorem C1_parse_rows_witness:
  "length (parseDelimitedText (''a,b'' @ [LF] @ '' '' @ [LF] @ ''c'') [''x'', ''y'']) = 2
   \<and> parseDelimitedText (''a,b'' @ [LF] @ '' '' @ [LF] @ ''c'') [''x'', ''y'']
       = [[''x'' \<mapsto> Str ''a'', ''y'' \<mapsto> Str ''b''], [''x'' \<mapsto> Str ''c'']]
   \<and> card (populated [''x'' \<mapsto> Str ''a'', ''y'' \<mapsto> Str ''b'']) \<le> 2
   \<and> card (populated [''x'' \<mapsto> Str ''c'']) \<le> 2"
  using C1_parse_rows[of "''a,b'' @ [LF] @ '' '' @ [LF] @ ''c''" "[''x'', ''y'']"]
  by (simp add: parseDelimitedText_def trim_def is_ws_def row_of_line_def assign_header_def
      nonblank_lines_def)

text \<open>
  Claim C2. The claim has every line split on tab as soon as the first non-empty line
  contains a tab, and the parser sets out to do so: its comment reads
  \<open>Detect separator (tab or comma)\<close> and its docstring \<open>Parse CSV or TSV string\<close>. But
  it looks for the tab in the first line after trimming it, and a tab is white space.
  The text \<open>Title A<TAB><LF>Title B<TAB>VIRTUAL\<close> is tab-separated, with an empty last
  cell in its first row. Its first line contains a tab, which trimming removes: the
  parser, and the paste component's copy of it, settle on the comma, and the title of
  the second row is the whole second line. Split on tab, as the claim says, the second
  row has the title \<open>Title B\<close> and the format \<open>VIRTUAL\<close>.
\<close>

theorem C2_first_line_trailing_tab:
  "nonblank_lines (''Title A'' @ [TAB, LF] @ ''Title B'' @ [TAB] @ ''VIRTUAL'')
     = [''Title A'' @ [TAB], ''Title B'' @ [TAB] @ ''VIRTUAL'']
   \<and> separator_by_raw_line (''Title A'' @ [TAB, LF] @ ''Title B'' @ [TAB] @ ''VIRTUAL'') = TAB
   \<and> parseDelimitedText (''Title A'' @ [TAB, LF] @ ''Title B'' @ [TAB] @ ''VIRTUAL'') [''title'', ''format'']
       = [[''title'' \<mapsto> Str ''Title A''], [''title'' \<mapsto> Str (''Title B'' @ [TAB] @ ''VIRTUAL'')]]
   \<and> PasteTable_handleParse (''Title A'' @ [TAB, LF] @ ''Title B'' @ [TAB] @ ''VIRTUAL'') [''title'', ''format'']
       = Some [[''title'' \<mapsto> Str ''Title A''], [''title'' \<mapsto> Str (''Title B'' @ [TAB] @ ''VIRTUAL'')]]
   \<and> map (\<lambda>line. row_of_line TAB [''title'', ''format''] (trim line))
        (nonblank_lines (''Title A'' @ [TAB, LF] @ ''Title B'' @ [TAB] @ ''VIRTUAL''))
       = [[''title'' \<mapsto> Str ''Title A''], [''title'' \<mapsto> Str ''Title B'', ''format'' \<mapsto> Str ''VIRTUAL'']]"
proof -
  let ?text = "''Title A'' @ [TAB, LF] @ ''Title B'' @ [TAB] @ ''VIRTUAL''"
  have n: "nonblank_lines ?text = [''Title A'' @ [TAB], ''Title B'' @ [TAB] @ ''VIRTUAL'']"
    by (simp add: nonblank_lines_def is_ws_def)
  have s: "separator_by_raw_line ?text = TAB"
    using n by (simp add: separator_by_raw_line_def)
  have p: "parseDelimitedText ?text [''title'', ''format'']
       = [[''title'' \<mapsto> Str ''Title A''], [''title'' \<mapsto> Str (''Title B'' @ [TAB] @ ''VIRTUAL'')]]"
    by (simp add: parseDelimitedText_def trim_def is_ws_def row_of_line_def assign_header_def)
  have q: "PasteTable_handleParse ?text [''title'', ''format'']
       = Some [[''title'' \<mapsto> Str ''Title A''], [''title'' \<mapsto> Str (''Title B'' @ [TAB] @ ''VIRTUAL'')]]"
    by (simp add: PasteTable_handleParse_def trim_def is_ws_def row_of_line_def assign_header_def)
  have m: "map (\<lambda>line. row_of_line TAB [''title'', ''format''] (trim line)) (nonblank_lines ?text)
       = [[''title'' \<mapsto> Str ''Title A''], [''title'' \<mapsto> Str ''Title B'', ''format'' \<mapsto> Str ''VIRTUAL'']]"
    unfolding n by (simp add: trim_def is_ws_def row_of_line_def assign_header_def)
  from n s p q m show ?thesis by (intro conjI)
qed

text \<open>
  Claim C3. For every row and every list of required fields: if a required field of the
  row is unset, null or the empty string, \<open>validateRow\<close> answers \<open>isValid = false\<close> and
  its errors contain the message \<open>Missing required field: <field>\<close>. In the bulk page,
  whose only required field is the title, such a row is never pushed on the valid rows:
  it is pushed on the error rows, with an error text that starts with that message.
\<close>

theorem C3_missing_required:
  "(field \<in> set requiredFields
      \<and> (read_prop row field = Undefined \<or> read_prop row field = Null \<or> read_prop row field = Str [])
    \<longrightarrow> \<not> isValid (validateRow row requiredFields typeValidations)
        \<and> (''Missing required field: '' @ field) \<in> set (errors (validateRow row requiredFields typeValidations)))
   \<and> (r \<in> set rows
      \<and> (read_prop r ''title'' = Undefined \<or> read_prop r ''title'' = Null \<or> read_prop r ''title'' = Str [])
    \<longrightarrow> processedRow P r \<notin> set (fst (handleParse P rows))
        \<and> (\<exists>e \<in> set (snd (handleParse P rows)).
              er_row e = processedRow P r
              \<and> (\<exists>rest. er_error e = ''Missing required field: title'' @ rest)))"
proof (intro conjI impI)
  assume a: "field \<in> set requiredFields
      \<and> (read_prop row field = Undefined \<or> read_prop row field = Null \<or> read_prop row field = Str [])"
  then show m: "(''Missing required field: '' @ field) \<in> set (errors (validateRow row requiredFields typeValidations))"
    using missing_in_errors by blast
  then show "\<not> isValid (validateRow row requiredFields typeValidations)"
    by (auto simp: isValid_validateRow)
next
  let ?v = "\<lambda>x. validateRow (processedRow P x) REQUIRED_FIELDS (TYPE_VALIDATIONS P)"
  assume a: "r \<in> set rows
      \<and> (read_prop r ''title'' = Undefined \<or> read_prop r ''title'' = Null \<or> read_prop r ''title'' = Str [])"
  then have cr: "check_required r ''title'' = [''Missing required field: title'']"
    by (simp add: check_required_def)
  have inv: "\<not> isValid (?v x)" if "processedRow P x = processedRow P r" for x
    using cr that by (simp add: isValid_validateRow errors_validateRow REQUIRED_FIELDS_def check_required_def read_processedRow)
  show "processedRow P r \<notin> set (fst (handleParse P rows))"
  proof
    assume "processedRow P r \<in> set (fst (handleParse P rows))"
    then obtain x where "x \<in> set rows" "isValid (?v x)" "processedRow P x = processedRow P r"
      by (auto simp: handleParse_eq)
    with inv show False by blast
  qed
  have e: "\<exists>rest. join '', '' (errors (?v r)) = ''Missing required field: title'' @ rest"
    unfolding processed_errors' cr by (simp only: append_Cons append_Nil join_Cons) blast
  have "\<lparr>er_row = processedRow P r, er_error = join '', '' (errors (?v r))\<rparr> \<in> set (snd (handleParse P rows))"
    using a inv[of r] by (auto simp: handleParse_eq)
  with e show "\<exists>e \<in> set (snd (handleParse P rows)).
              er_row e = processedRow P r
              \<and> (\<exists>rest. er_error e = ''Missing required field: title'' @ rest)"
    by (intro bexI[of _ "\<lparr>er_row = processedRow P r, er_error = join '', '' (errors (?v r))\<rparr>"]) simp_all
qed

theorem C3_missing_required_witness:
  "\<not> isValid (validateRow [''city'' \<mapsto> Str ''Oslo''] [''title''] [])
   \<and> ''Missing required field: title'' \<in> set (errors (validateRow [''city'' \<mapsto> Str ''Oslo''] [''title''] []))
   \<and> processedRow sample_platform [''title'' \<mapsto> Str []]
        \<notin> set (fst (handleParse sample_platform [[''title'' \<mapsto> Str []]]))
   \<and> (\<exists>e. e \<in> set (snd (handleParse sample_platform [[''title'' \<mapsto> Str []]]))
          \<and> er_row e = processedRow sample_platform [''title'' \<mapsto> Str []]
          \<and> (\<exists>rest. er_error e = ''Missing required field: title'' @ rest))"
  using C3_missing_required[of "''title''" "[''title'']" "[''city'' \<mapsto> Str ''Oslo'']" "[]"
      "[''title'' \<mapsto> Str []]" "[[''title'' \<mapsto> Str []]]" sample_platform]
  by (simp add: read_prop_def Bex_def)



text \<open>
  Claim C5. Each of the three resolvers returns \<open>null\<close> for an empty name without
  asking the store. For any other name it makes exactly one call, a single-row query
  that matches the name column against the name with \<open>ilike\<close>, and returns the key of
  the row the response carries, or \<open>null\<close> when it carries none (the response's error
  field plays no part); a query that throws makes the resolver throw. Over the store as
  the specification describes it, the result is the key of the one row whose name equals
  the given name up to case, \<open>null\<close> when no row does, and a thrown error when several
  do: no row is chosen.
\<close>

theorem C5_resolvers:
  "resolveUniversityId e h [] = (Resolved Null, h)
   \<and> resolveOrganizerId e h [] = (Resolved Null, h)
   \<and> resolveCompetitionId e h [] = (Resolved Null, h)
   \<and> (name \<noteq> [] \<longrightarrow>
        resolveUniversityId e h name
          = (case store e h (Select_single ''university'' ''id'' ''name'' name) of
               Rejected x \<Rightarrow> Rejected x
             | Resolved r \<Rightarrow> Resolved (data_key_or_null r ''id''),
             h @ [Store (Select_single ''university'' ''id'' ''name'' name)])
        \<and> resolveOrganizerId e h name
          = (case store e h (Select_single ''organizer'' ''orgId'' ''orgName'' name) of
               Rejected x \<Rightarrow> Rejected x
             | Resolved r \<Rightarrow> Resolved (data_key_or_null r ''orgId''),
             h @ [Store (Select_single ''organizer'' ''orgId'' ''orgName'' name)])
        \<and> resolveCompetitionId e h name
          = (case store e h (Select_single ''competition'' ''id'' ''title'' name) of
               Rejected x \<Rightarrow> Rejected x
             | Resolved r \<Rightarrow> Resolved (data_key_or_null r ''id''),
             h @ [Store (Select_single ''competition'' ''id'' ''title'' name)])
        \<and> fst (resolveUniversityId (e\<lparr>store := lookup_store tables\<rparr>) h name)
          = (case matching_rows tables ''university'' ''name'' name of
               [] \<Rightarrow> Resolved Null
             | [r] \<Rightarrow> Resolved (if read_prop r ''id'' = Undefined then Null else read_prop r ''id'')
             | _ \<Rightarrow> Rejected (Error ''multiple rows returned''))
        \<and> fst (resolveOrganizerId (e\<lparr>store := lookup_store tables\<rparr>) h name)
          = (case matching_rows tables ''organizer'' ''orgName'' name of
               [] \<Rightarrow> Resolved Null
             | [r] \<Rightarrow> Resolved (if read_prop r ''orgId'' = Undefined then Null else read_prop r ''orgId'')
             | _ \<Rightarrow> Rejected (Error ''multiple rows returned''))
        \<and> fst (resolveCompetitionId (e\<lparr>store := lookup_store tables\<rparr>) h name)
          = (case matching_rows tables ''competition'' ''title'' name of
               [] \<Rightarrow> Resolved Null
             | [r] \<Rightarrow> Resolved (if read_prop r ''id'' = Undefined then Null else read_prop r ''id'')
             | _ \<Rightarrow> Rejected (Error ''multiple rows returned'')))"
proof (intro conjI impI)
  show "resolveUniversityId e h [] = (Resolved Null, h)"
    by (simp add: resolveUniversityId_def)
  show "resolveOrganizerId e h [] = (Resolved Null, h)"
    by (simp add: resolveOrganizerId_def)
  show "resolveCompetitionId e h [] = (Resolved Null, h)"
    by (simp add: resolveCompetitionId_def)
next
  assume n: "name \<noteq> []"
  show u: "resolveUniversityId e h name
          = (case store e h (Select_single ''university'' ''id'' ''name'' name) of
               Rejected x \<Rightarrow> Rejected x
             | Resolved r \<Rightarrow> Resolved (data_key_or_null r ''id''),
             h @ [Store (Select_single ''university'' ''id'' ''name'' name)])" for e
    using n by (simp add: resolveUniversityId_def await_store_def split: awaited.splits)
  show o: "resolveOrganizerId e h name
          = (case store e h (Select_single ''organizer'' ''orgId'' ''orgName'' name) of
               Rejected x \<Rightarrow> Rejected x
             | Resolved r \<Rightarrow> Resolved (data_key_or_null r ''orgId''),
             h @ [Store (Select_single ''organizer'' ''orgId'' ''orgName'' name)])" for e
    using n by (simp add: resolveOrganizerId_def await_store_def split: awaited.splits)
  show c: "resolveCompetitionId e h name
          = (case store e h (Select_single ''competition'' ''id'' ''title'' name) of
               Rejected x \<Rightarrow> Rejected x
             | Resolved r \<Rightarrow> Resolved (data_key_or_null r ''id''),
             h @ [Store (Select_single ''competition'' ''id'' ''title'' name)])" for e
    using n by (simp add: resolveCompetitionId_def await_store_def split: awaited.splits)
  show "fst (resolveUniversityId (e\<lparr>store := lookup_store tables\<rparr>) h name)
          = (case matching_rows tables ''university'' ''name'' name of
               [] \<Rightarrow> Resolved Null
             | [r] \<Rightarrow> Resolved (if read_prop r ''id'' = Undefined then Null else read_prop r ''id'')
             | _ \<Rightarrow> Rejected (Error ''multiple rows returned''))"
    by (simp add: u lookup_store_single)
  show "fst (resolveOrganizerId (e\<lparr>store := lookup_store tables\<rparr>) h name)
          = (case matching_rows tables ''organizer'' ''orgName'' name of
               [] \<Rightarrow> Resolved Null
             | [r] \<Rightarrow> Resolved (if read_prop r ''orgId'' = Undefined then Null else read_prop r ''orgId'')
             | _ \<Rightarrow> Rejected (Error ''multiple rows returned''))"
    by (simp add: o lookup_store_single)
  show "fst (resolveCompetitionId (e\<lparr>store := lookup_store tables\<rparr>) h name)
          = (case matching_rows tables ''competition'' ''title'' name of
               [] \<Rightarrow> Resolved Null
             | [r] \<Rightarrow> Resolved (if read_prop r ''id'' = Undefined then Null else read_prop r ''id'')
             | _ \<Rightarrow> Rejected (Error ''multiple rows returned''))"
    by (simp add: c lookup_store_single)
qed

theorem C5_resolvers_witness:
  "resolveUniversityId sample_env [] [] = (Resolved Null, [])
   \<and> resolveUniversityId sample_env [] ''mit''
       = (Resolved (Str ''u1''), [Store (Select_single ''university'' ''id'' ''name'' ''mit'')])
   \<and> fst (resolveUniversityId sample_env [] ''Oslo'') = Resolved Null
   \<and> fst (resolveUniversityId sample_env [] ''YALE'') = Rejected (Error ''multiple rows returned'')
   \<and> fst (resolveOrganizerId sample_env [] ''case club'') = Resolved (Str ''o1'')"
proof -
  have s: "sample_env\<lparr>store := lookup_store sample_tables\<rparr> = sample_env"
    by (simp add: sample_env_def)
  have st: "store sample_env = lookup_store sample_tables"
    by (simp add: sample_env_def)
  show ?thesis
    using C5_resolvers[of sample_env "[]" "''mit''" sample_tables]
      C5_resolvers[of sample_env "[]" "''Oslo''" sample_tables]
      C5_resolvers[of sample_env "[]" "''YALE''" sample_tables]
      C5_resolvers[of sample_env "[]" "''case club''" sample_tables]
    unfolding s
    by (simp add: sample_matches read_prop_def st lookup_store_def data_key_or_null_def)
qed

text \<open>
  Claim C6, as amended. For every row of the bulk page whose \<open>websiteUrl\<close> is the string
  \<open>not-a-url\<close> and whose title is not empty, on every platform: validation fails, the
  row is pushed on the error rows and never on the valid rows, and the error list is the
  message \<open>Invalid value for field: websiteUrl\<close>, followed by the message for
  \<open>competitionImageUrl\<close> exactly when that field fails its own URL check. The numeric
  fields never add a message, since they went through \<open>toNumber\<close> first.
\<close>

theorem C6_not_a_url:
  assumes w: "read_prop r ''websiteUrl'' = Str ''not-a-url''"
    and t: "read_prop r ''title'' \<noteq> Undefined \<and> read_prop r ''title'' \<noteq> Null \<and> read_prop r ''title'' \<noteq> Str []"
    and m: "r \<in> set rows"
  shows "\<not> isValid (validateRow (processedRow P r) REQUIRED_FIELDS (TYPE_VALIDATIONS P))
    \<and> errors (validateRow (processedRow P r) REQUIRED_FIELDS (TYPE_VALIDATIONS P))
        = ''Invalid value for field: websiteUrl''
          # (if url_validation P (read_prop r ''competitionImageUrl'') then []
             else [''Invalid value for field: competitionImageUrl''])
    \<and> processedRow P r \<notin> set (fst (handleParse P rows))
    \<and> \<lparr>er_row = processedRow P r,
        er_error = ''Invalid value for field: websiteUrl''
          @ (if url_validation P (read_prop r ''competitionImageUrl'') then []
             else '', Invalid value for field: competitionImageUrl'')\<rparr>
        \<in> set (snd (handleParse P rows))"
proof -
  let ?v = "validateRow (processedRow P r) REQUIRED_FIELDS (TYPE_VALIDATIONS P)"
  have req: "check_required r ''title'' = []" using t by (simp add: check_required_def)
  have e: "errors ?v = ''Invalid value for field: websiteUrl''
          # (if url_validation P (read_prop r ''competitionImageUrl'') then []
             else [''Invalid value for field: competitionImageUrl''])"
    by (simp add: processed_errors' req w not_a_url_invalid)
  have nv: "\<not> isValid ?v" by (simp add: isValid_validateRow e)
  have j: "join '', '' (errors ?v) = ''Invalid value for field: websiteUrl''
          @ (if url_validation P (read_prop r ''competitionImageUrl'') then []
             else '', Invalid value for field: competitionImageUrl'')"
    unfolding e by simp
  show ?thesis
    using e nv handleParse_valid_iff[OF m, of P] handleParse_error_row[OF m nv] j by simp
qed

theorem C6_not_a_url_witness:
  "\<not> isValid (validateRow (processedRow sample_platform [''title'' \<mapsto> Str ''T'', ''websiteUrl'' \<mapsto> Str ''not-a-url''])
                  REQUIRED_FIELDS (TYPE_VALIDATIONS sample_platform))
   \<and> errors (validateRow (processedRow sample_platform [''title'' \<mapsto> Str ''T'', ''websiteUrl'' \<mapsto> Str ''not-a-url''])
                  REQUIRED_FIELDS (TYPE_VALIDATIONS sample_platform))
       = [''Invalid value for field: websiteUrl'']
   \<and> snd (handleParse sample_platform [[''title'' \<mapsto> Str ''T'', ''websiteUrl'' \<mapsto> Str ''not-a-url'']])
       = [\<lparr>er_row = processedRow sample_platform [''title'' \<mapsto> Str ''T'', ''websiteUrl'' \<mapsto> Str ''not-a-url''],
           er_error = ''Invalid value for field: websiteUrl''\<rparr>]"
  using C6_not_a_url[of "[''title'' \<mapsto> Str ''T'', ''websiteUrl'' \<mapsto> Str ''not-a-url'']"
      "[[''title'' \<mapsto> Str ''T'', ''websiteUrl'' \<mapsto> Str ''not-a-url'']]" sample_platform]
  by (simp add: read_prop_def handleParse_def handleParse_step_def Let_def)

text \<open>
  Claim C6 as stated gives the error list as exactly the one message. A row whose image
  URL is \<open>x\<close> has both messages, and its error text joins them.
\<close>

theorem C6_counterexample:
  "read_prop [''title'' \<mapsto> Str ''T'', ''websiteUrl'' \<mapsto> Str ''not-a-url'', ''competitionImageUrl'' \<mapsto> Str ''x'']
     ''websiteUrl'' = Str ''not-a-url''
   \<and> errors (validateRow
        (processedRow sample_platform
           [''title'' \<mapsto> Str ''T'', ''websiteUrl'' \<mapsto> Str ''not-a-url'', ''competitionImageUrl'' \<mapsto> Str ''x''])
        REQUIRED_FIELDS (TYPE_VALIDATIONS sample_platform))
       = [''Invalid value for field: websiteUrl'', ''Invalid value for field: competitionImageUrl'']
   \<and> map er_error (snd (handleParse sample_platform
        [[''title'' \<mapsto> Str ''T'', ''websiteUrl'' \<mapsto> Str ''not-a-url'', ''competitionImageUrl'' \<mapsto> Str ''x'']]))
       = [''Invalid value for field: websiteUrl, Invalid value for field: competitionImageUrl'']"
proof -
  have x: "\<not> url_validation sample_platform (Str ''x'')"
    by (simp add: url_validation_def truthy_def isValidUrl_def URL_protocol_def url_scheme_def
        is_c0_or_space_def is_alpha_def scheme_char_def is_digit_def)
  show ?thesis
    by (simp add: handleParse_eq isValid_validateRow processed_errors' check_required_def read_prop_def
        not_a_url_invalid x)
qed

text \<open>
  Claim C7. For every row, every list of required fields and every table of predicates:
  a field whose value is unset or null never has its predicate called (every call that
  \<open>validateRow\<close> makes is on the value of the field, which is neither), and no
  \<open>Invalid value\<close> message names it; the only message about it is the one for a required
  field that is missing, which appears exactly when the field is required.
\<close>

theorem C7_unset_skips_predicate:
  assumes "read_prop row field = Undefined \<or> read_prop row field = Null"
  shows "(''Invalid value for field: '' @ field) \<notin> set (errors (validateRow row requiredFields typeValidations))
   \<and> field \<notin> fst ` set (validator_calls row typeValidations)
   \<and> (\<forall>c \<in> set (validator_calls row typeValidations).
          snd c = read_prop row (fst c) \<and> snd c \<noteq> Undefined \<and> snd c \<noteq> Null)
   \<and> ((''Missing required field: '' @ field) \<in> set (errors (validateRow row requiredFields typeValidations))
        \<longleftrightarrow> field \<in> set requiredFields)"
proof (intro conjI)
  show "(''Invalid value for field: '' @ field) \<notin> set (errors (validateRow row requiredFields typeValidations))"
  proof
    assume "(''Invalid value for field: '' @ field) \<in> set (errors (validateRow row requiredFields typeValidations))"
    then consider g where "g \<in> set requiredFields" "(''Invalid value for field: '' @ field) \<in> set (check_required row g)"
      | g validator where "(g, validator) \<in> set typeValidations"
          "(''Invalid value for field: '' @ field) \<in> set (fst (check_validation row (g, validator)))"
      by (auto simp: errors_validateRow)
    then show False
    proof cases
      case 1
      then show False using invalid_not_from_required by blast
    next
      case 2
      then show False using invalid_from_validation[of field row g validator] assms by auto
    qed
  qed
  show "\<forall>c \<in> set (validator_calls row typeValidations).
          snd c = read_prop row (fst c) \<and> snd c \<noteq> Undefined \<and> snd c \<noteq> Null"
  proof
    fix c assume "c \<in> set (validator_calls row typeValidations)"
    then obtain g validator where "c \<in> set (snd (check_validation row (g, validator)))"
      by (auto simp: validator_calls_def)
    then show "snd c = read_prop row (fst c) \<and> snd c \<noteq> Undefined \<and> snd c \<noteq> Null"
      using call_from_validation[of "fst c" "snd c" row g validator] by auto
  qed
  then show "field \<notin> fst ` set (validator_calls row typeValidations)"
    using assms by force
  show "(''Missing required field: '' @ field) \<in> set (errors (validateRow row requiredFields typeValidations))
        \<longleftrightarrow> field \<in> set requiredFields"
    using assms unfolding missing_only_from_required
    by (auto simp: check_required_def)
qed

theorem C7_unset_skips_predicate_witness:
  "''Invalid value for field: websiteUrl''
     \<notin> set (errors (validateRow [''title'' \<mapsto> Str ''T'', ''websiteUrl'' \<mapsto> Null] [''title'']
                        (TYPE_VALIDATIONS sample_platform)))
   \<and> ''websiteUrl'' \<notin> fst ` set (validator_calls [''title'' \<mapsto> Str ''T'', ''websiteUrl'' \<mapsto> Null]
                                      (TYPE_VALIDATIONS sample_platform))
   \<and> ''Missing required field: websiteUrl''
     \<notin> set (errors (validateRow [''title'' \<mapsto> Str ''T'', ''websiteUrl'' \<mapsto> Null] [''title'']
                        (TYPE_VALIDATIONS sample_platform)))"
  using C7_unset_skips_predicate[of "[''title'' \<mapsto> Str ''T'', ''websiteUrl'' \<mapsto> Null]" "''websiteUrl''"
      "[''title'']" "TYPE_VALIDATIONS sample_platform"]
  by (simp add: read_prop_def)

text \<open>
  Claim C8. Default filling is idempotent: for every record \<open>d\<close> and defaults \<open>m\<close>,
  filling the result of a first filling again with the same defaults gives the same
  object, so no field set by the first application changes.
\<close>

theorem C8_applyDefaults_idempotent:
  "applyDefaults (applyDefaults d m) m = applyDefaults d m"
proof (rule ext)
  fix key
  have at: "applyDefaults x y key
            = (case x key of None \<Rightarrow> y key | Some v \<Rightarrow> if v = Undefined then y key else Some v)"
    for x y
    by (simp add: applyDefaults_def filterUndefined_def map_add_def split: option.splits)
  show "applyDefaults (applyDefaults d m) m key = applyDefaults d m key"
  proof (cases "d key")
    case None
    then show ?thesis by (simp add: at split: option.splits)
  next
    case (Some v)
    then show ?thesis by (simp add: at split: option.splits)
  qed
qed

text \<open>
  Claim C9. The claim has the handler answer 400 whenever the parsed body lacks a
  \<open>longDescription\<close>, and the handler sets out to: its \<open>Validate request\<close> step answers
  400, \<open>Missing longDescription in request body\<close>, for the bodies \<open>{}\<close>, \<open>[]\<close>, a
  string, a number and a boolean. The body \<open>null\<close> is valid JSON and has no
  \<open>longDescription\<close> either, but destructuring it throws before that step is reached,
  and the \<open>catch\<close> answers 500, \<open>Internal server error\<close>.
\<close>

theorem C9_null_body:
  "isOpenAIEnabled sample_server
   \<and> json_field JNull ''longDescription'' = None
   \<and> POST sample_server (Resolved JNull) = json_error ''Internal server error'' 500
   \<and> http_status (POST sample_server (Resolved JNull)) = 500
   \<and> POST sample_server (Resolved (JObject [])) = json_error ''Missing longDescription in request body'' 400
   \<and> POST sample_server (Resolved (JArray [])) = json_error ''Missing longDescription in request body'' 400
   \<and> POST sample_server (Resolved (JString ''text'')) = json_error ''Missing longDescription in request body'' 400
   \<and> POST sample_server (Resolved (JNumber 1)) = json_error ''Missing longDescription in request body'' 400
   \<and> POST sample_server (Resolved (JBool False)) = json_error ''Missing longDescription in request body'' 400"
  by (simp add: isOpenAIEnabled_def isOpenAIAvailable_def sample_server_def json_field_def
      POST_def destructure_def json_error_def)


text \<open>
  Claim C10, as amended. In the bulk page, for every parsed row in which one of
  \<open>prizeAmount\<close>, \<open>registrationFee\<close>, \<open>teamSizeMin\<close>, \<open>teamSizeMax\<close> is a string that
  does not parse as a number: \<open>toNumber\<close> turns the value into \<open>undefined\<close> before
  validation, the predicate of that field is not called, no \<open>Invalid value\<close> message
  names the field, and the row is classified as valid exactly when its title is present
  and its two URL fields pass their checks.
\<close>

theorem C10_non_numeric_discarded:
  assumes k: "k \<in> {''prizeAmount'', ''registrationFee'', ''teamSizeMin'', ''teamSizeMax''}"
    and s: "read_prop r k = Str s"
    and n: "Number_of_string P s = NaN"
    and m: "r \<in> set rows"
  shows "read_prop (processedRow P r) k = Undefined
    \<and> k \<notin> fst ` set (validator_calls (processedRow P r) (TYPE_VALIDATIONS P))
    \<and> (''Invalid value for field: '' @ k)
        \<notin> set (errors (validateRow (processedRow P r) REQUIRED_FIELDS (TYPE_VALIDATIONS P)))
    \<and> (processedRow P r \<in> set (fst (handleParse P rows))
        \<longleftrightarrow> read_prop r ''title'' \<noteq> Undefined \<and> read_prop r ''title'' \<noteq> Null
            \<and> read_prop r ''title'' \<noteq> Str []
            \<and> url_validation P (read_prop r ''websiteUrl'')
            \<and> url_validation P (read_prop r ''competitionImageUrl''))"
proof -
  have u: "read_prop (processedRow P r) k = Undefined"
    using k s n by (auto simp: read_processedRow toNumber_def Let_def)
  have c: "k \<notin> fst ` set (validator_calls (processedRow P r) (TYPE_VALIDATIONS P))"
  proof
    assume "k \<in> fst ` set (validator_calls (processedRow P r) (TYPE_VALIDATIONS P))"
    then obtain v g validator where "(k, v) \<in> set (snd (check_validation (processedRow P r) (g, validator)))"
      by (auto simp: validator_calls_def)
    then show False using call_from_validation[of k v "processedRow P r" g validator] u by auto
  qed
  have e: "(''Invalid value for field: '' @ k)
        \<notin> set (errors (validateRow (processedRow P r) REQUIRED_FIELDS (TYPE_VALIDATIONS P)))"
    using k by (auto simp: processed_errors' check_required_def)
  have v: "processedRow P r \<in> set (fst (handleParse P rows))
        \<longleftrightarrow> read_prop r ''title'' \<noteq> Undefined \<and> read_prop r ''title'' \<noteq> Null
            \<and> read_prop r ''title'' \<noteq> Str []
            \<and> url_validation P (read_prop r ''websiteUrl'')
            \<and> url_validation P (read_prop r ''competitionImageUrl'')"
    unfolding handleParse_valid_iff[OF m] isValid_processed
    by (auto simp: check_required_def)
  from u c e v show ?thesis by blast
qed

theorem C10_non_numeric_discarded_witness:
  "read_prop (processedRow sample_platform [''title'' \<mapsto> Str ''T'', ''prizeAmount'' \<mapsto> Str ''abc'']) ''prizeAmount'' = Undefined
   \<and> ''Invalid value for field: prizeAmount''
        \<notin> set (errors (validateRow (processedRow sample_platform [''title'' \<mapsto> Str ''T'', ''prizeAmount'' \<mapsto> Str ''abc''])
                    REQUIRED_FIELDS (TYPE_VALIDATIONS sample_platform)))
   \<and> processedRow sample_platform [''title'' \<mapsto> Str ''T'', ''prizeAmount'' \<mapsto> Str ''abc'']
        \<in> set (fst (handleParse sample_platform [[''title'' \<mapsto> Str ''T'', ''prizeAmount'' \<mapsto> Str ''abc'']]))"
proof -
  have n: "Number_of_string sample_platform ''abc'' = NaN"
    by (simp add: sample_platform_def is_digit_def)
  have s: "read_prop [''title'' \<mapsto> Str ''T'', ''prizeAmount'' \<mapsto> Str ''abc''] ''prizeAmount'' = Str ''abc''"
    by (simp add: read_prop_def)
  show ?thesis
    using C10_non_numeric_discarded[OF _ s n, of "[[''title'' \<mapsto> Str ''T'', ''prizeAmount'' \<mapsto> Str ''abc'']]"]
    by (simp add: read_prop_def)
qed

text \<open>
  Claim C10 as stated makes the row valid whenever its required fields are present. The
  row below has a title and a non-numeric prize amount, and is classified as an error
  because of its website URL.
\<close>

theorem C10_counterexample:
  "read_prop [''title'' \<mapsto> Str ''T'', ''prizeAmount'' \<mapsto> Str ''abc'', ''websiteUrl'' \<mapsto> Str ''not-a-url'']
     ''prizeAmount'' = Str ''abc''
   \<and> Number_of_string sample_platform ''abc'' = NaN
   \<and> check_required [''title'' \<mapsto> Str ''T'', ''prizeAmount'' \<mapsto> Str ''abc'', ''websiteUrl'' \<mapsto> Str ''not-a-url''] ''title'' = []
   \<and> fst (handleParse sample_platform
        [[''title'' \<mapsto> Str ''T'', ''prizeAmount'' \<mapsto> Str ''abc'', ''websiteUrl'' \<mapsto> Str ''not-a-url'']]) = []
   \<and> map er_error (snd (handleParse sample_platform
        [[''title'' \<mapsto> Str ''T'', ''prizeAmount'' \<mapsto> Str ''abc'', ''websiteUrl'' \<mapsto> Str ''not-a-url'']]))
       = [''Invalid value for field: websiteUrl'']"
proof -
  have n: "Number_of_string sample_platform ''abc'' = NaN"
    by (simp add: sample_platform_def is_digit_def)
  show ?thesis
    using n by (simp add: handleParse_eq isValid_validateRow processed_errors' check_required_def read_prop_def
      not_a_url_invalid)
qed

section \<open>Further properties\<close>

text \<open>
  The resolvers never read the error field of the response: whenever the awaited query
  resolves without a row, whatever error it reports, the resolver returns \<open>null\<close>, as it
  does when nothing matches.
\<close>

theorem X1_resolver_ignores_error:
  assumes "name \<noteq> []"
  shows "(store e h (Select_single ''university'' ''id'' ''name'' name) = Resolved \<lparr>data = None, error = err\<rparr>
          \<longrightarrow> resolveUniversityId e h name
              = (Resolved Null, h @ [Store (Select_single ''university'' ''id'' ''name'' name)]))
         \<and> (store e h (Select_single ''organizer'' ''orgId'' ''orgName'' name) = Resolved \<lparr>data = None, error = err\<rparr>
          \<longrightarrow> resolveOrganizerId e h name
              = (Resolved Null, h @ [Store (Select_single ''organizer'' ''orgId'' ''orgName'' name)]))
         \<and> (store e h (Select_single ''competition'' ''id'' ''title'' name) = Resolved \<lparr>data = None, error = err\<rparr>
          \<longrightarrow> resolveCompetitionId e h name
              = (Resolved Null, h @ [Store (Select_single ''competition'' ''id'' ''title'' name)]))"
  using assms
  by (simp add: resolveUniversityId_def resolveOrganizerId_def resolveCompetitionId_def
      await_store_def data_key_or_null_def)

theorem X1_resolver_ignores_error_witness:
  "store flaky_env [] (Select_single ''university'' ''id'' ''name'' ''YALE'')
     = Resolved \<lparr>data = None, error = Some ''no single row''\<rparr>
   \<and> resolveUniversityId flaky_env [] ''YALE''
     = (Resolved Null, [Store (Select_single ''university'' ''id'' ''name'' ''YALE'')])"
proof -
  have n: "''YALE'' \<noteq> []" by simp
  have s: "store flaky_env [] (Select_single ''university'' ''id'' ''name'' ''YALE'')
     = Resolved \<lparr>data = None, error = Some ''no single row''\<rparr>"
    by (simp add: flaky_env_def sample_env_def sample_matches)
  from X1_resolver_ignores_error[OF n, of flaky_env "[]" "Some ''no single row''"] s
  have "resolveUniversityId flaky_env [] ''YALE''
     = (Resolved Null, [] @ [Store (Select_single ''university'' ''id'' ''name'' ''YALE'')])"
    by blast
  with s show ?thesis by simp
qed

text \<open>
  The example of the specification: the text \<open>Title A<TAB>VIRTUAL<LF>Title B<TAB>\<close>
  with the headers \<open>title\<close> and \<open>format\<close> gives two rows, the second without a
  format, and the bulk page classifies both as valid on every platform.
\<close>

theorem X2_paste_example:
  "parseDelimitedText (''Title A'' @ [TAB] @ ''VIRTUAL'' @ [LF] @ ''Title B'' @ [TAB]) [''title'', ''format'']
     = [[''title'' \<mapsto> Str ''Title A'', ''format'' \<mapsto> Str ''VIRTUAL''], [''title'' \<mapsto> Str ''Title B'']]
   \<and> handleParse P [[''title'' \<mapsto> Str ''Title A'', ''format'' \<mapsto> Str ''VIRTUAL''], [''title'' \<mapsto> Str ''Title B'']]
     = ([processedRow P [''title'' \<mapsto> Str ''Title A'', ''format'' \<mapsto> Str ''VIRTUAL''],
         processedRow P [''title'' \<mapsto> Str ''Title B'']], [])"
proof -
  have p: "parseDelimitedText (''Title A'' @ [TAB] @ ''VIRTUAL'' @ [LF] @ ''Title B'' @ [TAB]) [''title'', ''format'']
     = [[''title'' \<mapsto> Str ''Title A'', ''format'' \<mapsto> Str ''VIRTUAL''], [''title'' \<mapsto> Str ''Title B'']]"
    by (simp add: parseDelimitedText_def trim_def is_ws_def row_of_line_def assign_header_def)
  have v: "isValid (validateRow (processedRow P [''title'' \<mapsto> Str ''Title A'', ''format'' \<mapsto> Str ''VIRTUAL''])
             REQUIRED_FIELDS (TYPE_VALIDATIONS P))"
     "isValid (validateRow (processedRow P [''title'' \<mapsto> Str ''Title B''])
             REQUIRED_FIELDS (TYPE_VALIDATIONS P))"
    by (simp_all add: isValid_processed check_required_def read_prop_def)
  have h: "handleParse P [[''title'' \<mapsto> Str ''Title A'', ''format'' \<mapsto> Str ''VIRTUAL''], [''title'' \<mapsto> Str ''Title B'']]
     = ([processedRow P [''title'' \<mapsto> Str ''Title A'', ''format'' \<mapsto> Str ''VIRTUAL''],
         processedRow P [''title'' \<mapsto> Str ''Title B'']], [])"
    using v by (simp add: handleParse_eq)
  from p h show ?thesis by (rule conjI)
qed

text \<open>
  In the bulk page the error list of any row, on any platform, is made of at most three
  messages, in this order: the missing title, the website URL, the image URL. The four
  numeric fields never contribute, whatever they hold.
\<close>

theorem X3_processed_row_errors:
  "errors (validateRow (processedRow P row) REQUIRED_FIELDS (TYPE_VALIDATIONS P))
   = (if read_prop row ''title'' = Undefined \<or> read_prop row ''title'' = Null \<or> read_prop row ''title'' = Str []
      then [''Missing required field: title''] else [])
     @ (if url_validation P (read_prop row ''websiteUrl'') then []
        else [''Invalid value for field: websiteUrl''])
     @ (if url_validation P (read_prop row ''competitionImageUrl'') then []
        else [''Invalid value for field: competitionImageUrl''])"
  unfolding processed_errors' check_required_def by simp

text \<open>
  When the first line that is not blank holds a tab that trimming leaves in place, or
  holds no tab at all, the separator is the one the line calls for: tab if the line
  contains a tab, comma otherwise, and every line is split on it, by the parser and by
  the paste component alike.
\<close>

theorem X4_separator_off_the_ends:
  assumes "nonblank_lines text = l # ls"
    and "TAB \<in> set (trim l) \<or> TAB \<notin> set l"
  shows "parseDelimitedText text headers
     = map (\<lambda>line. row_of_line (if TAB \<in> set l then TAB else COMMA) headers (trim line)) (l # ls)
   \<and> PasteTable_handleParse text headers
     = Some (map (\<lambda>line. row_of_line (if TAB \<in> set l then TAB else COMMA) headers (trim line)) (l # ls))"
proof -
  have "TAB \<in> set (trim l) \<longleftrightarrow> TAB \<in> set l"
    using assms(2) set_trim_subset[of l] by blast
  then have "parseDelimitedText text headers
     = map (\<lambda>line. row_of_line (if TAB \<in> set l then TAB else COMMA) headers (trim line)) (l # ls)"
    using parse_by_trimmed_first_line[OF assms(1), of headers] by simp
  moreover have "PasteTable_handleParse text headers = Some (parseDelimitedText text headers)"
    using assms(1) by (simp add: PasteTable_handleParse_eq)
  ultimately show ?thesis by simp
qed

theorem X4_separator_off_the_ends_witness:
  "nonblank_lines (''a'' @ [TAB] @ ''b,c'' @ [LF] @ ''d,e'') = [''a'' @ [TAB] @ ''b,c'', ''d,e'']
   \<and> TAB \<in> set (trim (''a'' @ [TAB] @ ''b,c''))
   \<and> parseDelimitedText (''a'' @ [TAB] @ ''b,c'' @ [LF] @ ''d,e'') [''x'', ''y'']
       = [[''x'' \<mapsto> Str ''a'', ''y'' \<mapsto> Str ''b,c''], [''x'' \<mapsto> Str ''d,e'']]"
proof -
  have h: "nonblank_lines (''a'' @ [TAB] @ ''b,c'' @ [LF] @ ''d,e'') = [''a'' @ [TAB] @ ''b,c'', ''d,e'']"
    by (simp add: nonblank_lines_def is_ws_def)
  have t: "TAB \<in> set (trim (''a'' @ [TAB] @ ''b,c'')) \<or> TAB \<notin> set (''a'' @ [TAB] @ ''b,c'')"
    by (simp add: trim_def is_ws_def)
  have t': "TAB \<in> set (trim (''a'' @ [TAB] @ ''b,c''))"
    by (simp add: trim_def is_ws_def)
  show ?thesis
    using h t' X4_separator_off_the_ends[OF h t, of "[''x'', ''y'']"]
    by (simp add: trim_def is_ws_def row_of_line_def assign_header_def)
qed

text \<open>
  The \<open>POST\<close> handler on every request whose body is not the JSON value \<open>null\<close>:
  without a configured key the answer is 503 whatever the body; with a key, a body that
  is not JSON gives 500; a parsed body without a \<open>longDescription\<close>, or with a falsy
  one, gives 400; a generation that throws or yields no usable text (no choice, no
  content, or content that is empty once trimmed) gives 500; and a successful generation
  gives status 200 with the body \<open>{ shortDescription }\<close> holding the generated string.
\<close>

theorem X5_POST_status:
  "(\<not> isOpenAIEnabled srv \<longrightarrow> http_status (POST srv req) = 503)
   \<and> (isOpenAIEnabled srv \<and> req = Rejected x \<longrightarrow> http_status (POST srv req) = 500)
   \<and> (isOpenAIEnabled srv \<and> req = Resolved parsed \<and> parsed \<noteq> JNull
        \<and> (json_field parsed ''longDescription'' = None
            \<or> (\<exists>j. json_field parsed ''longDescription'' = Some j \<and> \<not> json_truthy j))
       \<longrightarrow> http_status (POST srv req) = 400)
   \<and> (isOpenAIEnabled srv \<and> req = Resolved parsed
        \<and> json_field parsed ''longDescription'' = Some j \<and> json_truthy j
        \<and> generateShortDescription srv j = None
       \<longrightarrow> http_status (POST srv req) = 500)
   \<and> (isOpenAIEnabled srv \<and> req = Resolved parsed
        \<and> json_field parsed ''longDescription'' = Some j \<and> json_truthy j
        \<and> generateShortDescription srv j = Some short
       \<longrightarrow> POST srv req = \<lparr>http_status = 200,
                             http_body = JObject [(''shortDescription'', JString short)]\<rparr>)
   \<and> (isOpenAIEnabled srv \<longrightarrow>
        (generateShortDescription srv j = None
         \<longleftrightarrow> (case chat_completions_create srv j of
                Rejected _ \<Rightarrow> True
              | Resolved response \<Rightarrow>
                  (case choices response of
                     [] \<Rightarrow> True
                   | c # _ \<Rightarrow> (case message_content c of None \<Rightarrow> True | Some content \<Rightarrow> trim content = [])))))"
proof (intro conjI impI)
  show "http_status (POST srv req) = 503" if "\<not> isOpenAIEnabled srv"
    using that by (simp add: POST_def json_error_def)
  show "http_status (POST srv req) = 500" if "isOpenAIEnabled srv \<and> req = Rejected x"
    using that by (simp add: POST_def json_error_def)
  show "http_status (POST srv req) = 400"
    if "isOpenAIEnabled srv \<and> req = Resolved parsed \<and> parsed \<noteq> JNull
        \<and> (json_field parsed ''longDescription'' = None
            \<or> (\<exists>j. json_field parsed ''longDescription'' = Some j \<and> \<not> json_truthy j))"
    using that by (cases parsed) (auto simp: POST_def json_error_def destructure_def)
  have d: "destructure parsed ''longDescription'' = Inr (Some j)"
    if "json_field parsed ''longDescription'' = Some j"
    using that by (cases parsed) (auto simp: destructure_def json_field_def)
  show "http_status (POST srv req) = 500"
    if "isOpenAIEnabled srv \<and> req = Resolved parsed
        \<and> json_field parsed ''longDescription'' = Some j \<and> json_truthy j
        \<and> generateShortDescription srv j = None"
    using that d by (simp add: POST_def json_error_def)
  show "POST srv req = \<lparr>http_status = 200,
                             http_body = JObject [(''shortDescription'', JString short)]\<rparr>"
    if "isOpenAIEnabled srv \<and> req = Resolved parsed
        \<and> json_field parsed ''longDescription'' = Some j \<and> json_truthy j
        \<and> generateShortDescription srv j = Some short"
    using that d by (simp add: POST_def)
  show "generateShortDescription srv j = None
         \<longleftrightarrow> (case chat_completions_create srv j of
                Rejected _ \<Rightarrow> True
              | Resolved response \<Rightarrow>
                  (case choices response of
                     [] \<Rightarrow> True
                   | c # _ \<Rightarrow> (case message_content c of None \<Rightarrow> True | Some content \<Rightarrow> trim content = [])))"
    if "isOpenAIEnabled srv"
    using that generateShortDescription_None_iff by (simp add: isOpenAIEnabled_def)
qed

theorem X5_POST_status_witness:
  "http_status (POST (sample_server\<lparr>OPENAI_API_KEY := None\<rparr>)
       (Resolved (JObject [(''longDescription'', JString ''A long text'')]))) = 503
   \<and> http_status (POST sample_server (Rejected NonError)) = 500
   \<and> http_status (POST sample_server (Resolved (JObject [(''shortDescription'', JString ''x'')]))) = 400
   \<and> http_status (POST (sample_server\<lparr>chat_completions_create := (\<lambda>c. Rejected (Error ''overloaded''))\<rparr>)
       (Resolved (JObject [(''longDescription'', JString ''A long text'')]))) = 500
   \<and> POST sample_server (Resolved (JObject [(''longDescription'', JString ''A long text'')]))
       = \<lparr>http_status = 200, http_body = JObject [(''shortDescription'', JString ''A short text.'')]\<rparr>"
proof -
  let ?body = "JObject [(''longDescription'', JString ''A long text'')]"
  let ?off = "sample_server\<lparr>OPENAI_API_KEY := None\<rparr>"
  let ?down = "sample_server\<lparr>chat_completions_create := (\<lambda>c. Rejected (Error ''overloaded''))\<rparr>"
  have en: "isOpenAIEnabled sample_server" "isOpenAIEnabled ?down" "\<not> isOpenAIEnabled ?off"
    by (simp_all add: isOpenAIEnabled_def isOpenAIAvailable_def sample_server_def)
  have f: "json_field ?body ''longDescription'' = Some (JString ''A long text'')"
    "json_field (JObject [(''shortDescription'', JString ''x'')]) ''longDescription'' = None"
    "json_truthy (JString ''A long text'')"
    by (simp_all add: json_field_def json_truthy_def)
  have g: "generateShortDescription sample_server (JString ''A long text'') = Some ''A short text.''"
    "generateShortDescription ?down (JString ''A long text'') = None"
    by (simp_all add: generateShortDescription_def isOpenAIAvailable_def sample_server_def trim_def is_ws_def)
  show ?thesis
    using X5_POST_status[of ?off "Resolved ?body"]
      X5_POST_status[of sample_server "Rejected NonError" NonError]
      X5_POST_status[of sample_server "Resolved (JObject [(''shortDescription'', JString ''x'')])" _
         "JObject [(''shortDescription'', JString ''x'')]"]
      X5_POST_status[of ?down "Resolved ?body" _ "?body" "JString ''A long text''"]
      X5_POST_status[of sample_server "Resolved ?body" _ "?body" "JString ''A long text''" "''A short text.''"]
      en f g
    by simp
qed

end
